theory Spec2Isabelle
  imports Complex_Main "HOL-Library.Monad_Syntax"
begin

section \<open>Pagination (EloquentBuilder.paginate)\<close>

text \<open>
  A JavaScript number as \<open>paginate\<close> receives it: either a finite value or one of
  \<open>NaN\<close>, \<open>Infinity\<close>, \<open>-Infinity\<close>, for which \<open>Number.isFinite\<close> is false.
  Finite values are taken as exact rationals; rounding of very large floats is not modelled.
\<close>

datatype jsnum = Finite rat | NotFinite

text \<open>
  The part of the builder that \<open>limit\<close>, \<open>offset\<close> and the fetch use; the query
  builder below extends this record.
\<close>

record window =
  limitValue :: "int option"
  offsetValue :: "int option"

definition limit :: "int \<Rightarrow> 'a window_scheme \<Rightarrow> 'a window_scheme" where
  "limit n w = w\<lparr>limitValue := Some n\<rparr>"

definition offset :: "int \<Rightarrow> 'a window_scheme \<Rightarrow> 'a window_scheme" where
  "offset n w = w\<lparr>offsetValue := Some n\<rparr>"

text \<open>
  \<open>executeQuery\<close>/\<open>executeQueryMongo\<close>: the statement carries \<open>LIMIT\<close> and \<open>OFFSET\<close>
  (the cursor \<open>skip\<close> and \<open>limit\<close>), which the store applies to the rows \<open>matched\<close>
  that the builder's predicates select, in result order.
\<close>

definition executeQuery :: "'r list \<Rightarrow> 'a window_scheme \<Rightarrow> 'r list" where
  "executeQuery matched w =
     (let skipped = (case offsetValue w of None \<Rightarrow> matched | Some k \<Rightarrow> drop (nat k) matched)
      in case limitValue w of None \<Rightarrow> skipped | Some n \<Rightarrow> take (nat n) skipped)"

record 'r QueryResult =
  data :: "'r list"
  currentPage :: int
  perPage :: int
  total :: int
  lastPage :: int

text \<open>
  \<open>paginate(perPage, page)\<close>. \<open>matched\<close> are the rows the fetch ranges over and
  \<open>counted\<close> is what the separate count query (\<open>getCount\<close>) returns. The result is the
  \<open>QueryResult\<close> together with the builder window left behind by \<open>limit\<close>/\<open>offset\<close>.
\<close>

definition paginate ::
  "'r list \<Rightarrow> nat \<Rightarrow> 'a window_scheme \<Rightarrow> jsnum \<Rightarrow> jsnum \<Rightarrow> 'r QueryResult \<times> 'a window_scheme" where
  "paginate matched counted w perPageArg pageArg =
     (let pp = (case perPageArg of Finite r \<Rightarrow> max 1 \<lfloor>r\<rfloor> | NotFinite \<Rightarrow> 15);
          pg = (case pageArg of Finite r \<Rightarrow> max 1 \<lfloor>r\<rfloor> | NotFinite \<Rightarrow> 1);
          off = (pg - 1) * pp;
          w' = offset off (limit pp w);
          rows = executeQuery matched w';
          tot = int counted
      in (\<lparr>data = rows, currentPage = pg, perPage = pp, total = tot,
           lastPage = max 1 \<lceil>of_int tot / (of_int pp :: rat)\<rceil>\<rparr>, w'))"

definition fresh_window :: window where
  "fresh_window = \<lparr>limitValue = None, offsetValue = None\<rparr>"

section \<open>Values, clauses and the query builder (EloquentBuilder)\<close>

text \<open>
  JavaScript values as they occur in attributes, rows and clause values. Numbers are
  integers or \<open>NaN\<close> (fractions are not modelled); an \<open>ObjectId\<close> is identified with its
  24-digit hex string and a \<open>Date\<close> with its time value; \<open>VRef r\<close> is a reference to
  the \<open>Model\<close> instance stored at address \<open>r\<close>.
\<close>

type_synonym ref = nat

datatype val =
    VUndefined | VNull | VBool bool | VNum int | VNaN | VStr string
  | VObjectId string | VDate int | VArr "val list" | VRef ref


definition isNullish :: "val \<Rightarrow> bool" where
  "isNullish v = (v = VUndefined \<or> v = VNull)"

text \<open>Truthiness: \<open>undefined\<close>, \<open>null\<close>, \<open>false\<close>, \<open>0\<close>, \<open>NaN\<close> and \<open>''\<close> are falsy.\<close>

definition truthy :: "val \<Rightarrow> bool" where
  "truthy v = (v \<noteq> VUndefined \<and> v \<noteq> VNull \<and> v \<noteq> VBool False \<and> v \<noteq> VNum 0 \<and> v \<noteq> VNaN
     \<and> v \<noteq> VStr [])"

fun isArray :: "val \<Rightarrow> bool" where
  "isArray (VArr _) = True"
| "isArray _ = False"

fun elems :: "val \<Rightarrow> val list" where
  "elems (VArr vs) = vs"
| "elems _ = []"

subsection \<open>String helpers\<close>

definition upperChars :: string where "upperChars = ''ABCDEFGHIJKLMNOPQRSTUVWXYZ''"
definition lowerChars :: string where "lowerChars = ''abcdefghijklmnopqrstuvwxyz''"
definition hexChars :: string where "hexChars = ''0123456789abcdefABCDEF''"
definition digitChars :: string where "digitChars = ''0123456789''"

definition toLowerCase :: "string \<Rightarrow> string" where
  "toLowerCase s = map (\<lambda>c. case map_of (zip upperChars lowerChars) c of Some d \<Rightarrow> d | None \<Rightarrow> c) s"

definition toUpperCase :: "string \<Rightarrow> string" where
  "toUpperCase s = map (\<lambda>c. case map_of (zip lowerChars upperChars) c of Some d \<Rightarrow> d | None \<Rightarrow> c) s"

definition isSpace :: "char \<Rightarrow> bool" where
  "isSpace c = (c = CHR '' '' \<or> c = CHR 0x09 \<or> c = CHR 0x0A \<or> c = CHR 0x0D)"

definition trim :: "string \<Rightarrow> string" where
  "trim s = rev (dropWhile isSpace (rev (dropWhile isSpace s)))"

fun join :: "string \<Rightarrow> string list \<Rightarrow> string" where
  "join sep [] = []"
| "join sep [x] = x"
| "join sep (x # y # xs) = x @ sep @ join sep (y # xs)"

text \<open>The test \<open>/^[0-9a-fA-F]{24}$/\<close>.\<close>

definition isHex24 :: "string \<Rightarrow> bool" where
  "isHex24 s = (length s = 24 \<and> list_all (\<lambda>c. c \<in> set hexChars) s)"

text \<open>The test \<open>/_id$/i\<close>.\<close>

definition endsWithId :: "string \<Rightarrow> bool" where
  "endsWithId s = (3 \<le> length s \<and> toLowerCase (drop (length s - 3) s) = ''_id'')"

fun digitsOf :: "nat \<Rightarrow> nat \<Rightarrow> string" where
  "digitsOf 0 n = []"
| "digitsOf (Suc fuel) n =
     (if n < 10 then [digitChars ! n] else digitsOf fuel (n div 10) @ [digitChars ! (n mod 10)])"

definition showInt :: "int \<Rightarrow> string" where
  "showInt i = (if i < 0 then ''-'' @ digitsOf (Suc (nat (- i))) (nat (- i)) else digitsOf (Suc (nat i)) (nat i))"

text \<open>
  \<open>String(v)\<close>. Dates print with spaces and colons; only that this text is never a
  24-digit hex string matters here, so it is abbreviated. Numbers with 22 digits or more
  print in exponent notation, which likewise is not hex.
\<close>

fun jsString :: "val \<Rightarrow> string" where
  "jsString VUndefined = ''undefined''"
| "jsString VNull = ''null''"
| "jsString (VBool b) = (if b then ''true'' else ''false'')"
| "jsString (VNum n) = (if length (showInt n) \<le> 21 then showInt n else showInt n @ ''e+'')"
| "jsString VNaN = ''NaN''"
| "jsString (VStr s) = s"
| "jsString (VObjectId h) = h"
| "jsString (VDate t) = ''Date '' @ showInt t"
| "jsString (VArr vs) = join '','' (map (\<lambda>v. if isNullish v then [] else jsString v) vs)"
| "jsString (VRef r) = ''[object Object]''"

subsection \<open>Clauses\<close>

datatype conn = And | Or

text \<open>
  \<open>WhereClause\<close>. \<open>Cond column operator value boolean\<close> is a predicate clause;
  \<open>Group clauses boolean\<close> is the clause \<open>{column: '', operator: 'nested', value: clauses}\<close>
  that \<open>where(callback)\<close> pushes. A \<open>Cond\<close> holds scalars or arrays of scalars; the
  builder's methods never give it the operator \<open>'nested'\<close>.
\<close>

datatype clause =
    Cond string string val "conn option"
  | Group "clause list" "conn option"

fun column :: "clause \<Rightarrow> string" where
  "column (Cond c _ _ _) = c"
| "column (Group _ _) = []"

fun boolean :: "clause \<Rightarrow> conn option" where
  "boolean (Cond _ _ _ b) = b"
| "boolean (Group _ b) = b"

text \<open>\<open>(w.boolean || 'and')\<close> as text.\<close>

fun connText :: "conn option \<Rightarrow> string" where
  "connText (Some Or) = ''or''"
| "connText _ = ''and''"

subsection \<open>Entity types\<close>

datatype reltype = HasOne | HasMany | BelongsTo | BelongsToMany | MorphOne | MorphMany

text \<open>
  \<open>RelationshipConfig\<close>. The related class is named (\<open>rmodel\<close>) and resolved through
  the table of classes. \<open>serialization\<close> holds the optional per-relation serializer
  settings that \<open>getRelationSerializationOptions\<close> reads.
\<close>

record serialization =
  ser_include :: "string list option"
  ser_exclude :: "string list option"
  ser_maxDepth :: "int option"
  ser_withRelations :: "bool option"

record relconfig =
  rtype :: reltype
  rmodel :: string
  foreignKey :: "string option"
  localKey :: "string option"
  ownerKey :: "string option"
  relatedKey :: "string option"
  morphName :: "string option"
  morphType :: "string option"
  pivot :: "string option"
  rserialization :: "serialization option"

text \<open>
  The static side of a \<open>Model\<close> subclass. \<open>relationships\<close> is the static table;
  \<open>relationMethods\<close> lists the instance methods by name with the configuration
  \<open>convertRelationToConfig\<close> derives from what the method returns (\<open>None\<close> when it
  throws or returns no relation object). \<open>casts\<close> holds, per field, the conversion
  function the cast denotes. \<open>accessors\<close> holds the synchronous accessors (registered
  ones and \<open>get...Attribute\<close> methods); an accessor is taken to be a function of the
  stored value and of the instance's attributes. \<open>derivedTable\<close> is the table name
  \<open>getTable\<close> computes from the class name when \<open>table\<close> is empty.
\<close>

record model =
  className :: string
  table :: string
  primaryKey :: string
  fillable :: "string list"
  guarded :: "string list"
  hidden :: "string list"
  appends :: "string list"
  casts :: "(string \<times> (val \<Rightarrow> val)) list"
  accessors :: "(string \<times> (val \<Rightarrow> (string \<times> val) list \<Rightarrow> val)) list"
  derivedTable :: string
  timestamps :: bool
  softDeletes :: bool
  autoIncrement :: bool
  relationships :: "(string \<times> relconfig) list"
  relationMethods :: "(string \<times> relconfig option) list"

definition getTable :: "model \<Rightarrow> string" where
  "getTable m = (if table m \<noteq> [] then table m else derivedTable m)"

text \<open>\<open>(model.primaryKey || 'id')\<close>.\<close>

definition orElse :: "string \<Rightarrow> string \<Rightarrow> string" where
  "orElse s d = (if s = [] then d else s)"

fun optOr :: "string option \<Rightarrow> string \<Rightarrow> string" where
  "optOr None d = d"
| "optOr (Some s) d = orElse s d"

text \<open>\<open>getRelationship\<close>: the static table first, then the instance method.\<close>

definition getRelationship :: "model \<Rightarrow> string \<Rightarrow> relconfig option" where
  "getRelationship m relation =
     (case map_of (relationships m) relation of
        Some c \<Rightarrow> Some c
      | None \<Rightarrow> (case map_of (relationMethods m) relation of Some r \<Rightarrow> r | None \<Rightarrow> None))"

subsection \<open>The builder\<close>

text \<open>
  A has-condition. Its callback is represented by what it leaves in the fresh builder it
  is handed: the clauses, the has-conditions and the soft-delete flags.
\<close>

datatype hascond =
  HasCond (relation: string) (hoperator: "string option") (hcount: "int option")
          (callback: "cbstate option")
and cbstate =
  CbState (cbWhere: "clause list") (cbHas: "hascond list") (cbIncludeTrashed: bool)
          (cbOnlyTrashed: bool)

record builder = window +
  bmodel :: model
  whereClauses :: "clause list"
  hasConditions :: "hascond list"
  includeTrashed :: bool
  appliedSoftDeleteFilter :: bool
  onlyTrashedFlag :: bool
  columnQualifier :: "string option"

definition newBuilder :: "model \<Rightarrow> builder" where
  "newBuilder m = \<lparr>limitValue = None, offsetValue = None, bmodel = m, whereClauses = [],
     hasConditions = [], includeTrashed = False, appliedSoftDeleteFilter = False,
     onlyTrashedFlag = False, columnQualifier = None\<rparr>"

definition withTrashed :: "builder \<Rightarrow> builder" where
  "withTrashed b = b\<lparr>includeTrashed := True, onlyTrashedFlag := False\<rparr>"

definition withoutTrashed :: "builder \<Rightarrow> builder" where
  "withoutTrashed b = b\<lparr>includeTrashed := False, onlyTrashedFlag := False\<rparr>"

definition onlyTrashed :: "builder \<Rightarrow> builder" where
  "onlyTrashed b =
     b\<lparr>whereClauses := filter (\<lambda>w. column w \<noteq> ''deleted_at'') (whereClauses b)
                          @ [Cond ''deleted_at'' ''!='' VNull (Some And)],
       includeTrashed := True, onlyTrashedFlag := True\<rparr>"

definition pushWhere :: "clause \<Rightarrow> builder \<Rightarrow> builder" where
  "pushWhere w b = b\<lparr>whereClauses := whereClauses b @ [w]\<rparr>"

text \<open>
  \<open>where(column, operator, value)\<close>; with \<open>value\<close> undefined the second argument is the
  value and the operator is \<open>=\<close>.
\<close>

definition where3 :: "string \<Rightarrow> val \<Rightarrow> val \<Rightarrow> builder \<Rightarrow> builder" where
  "where3 col operator v b =
     (if v = VUndefined then pushWhere (Cond col ''='' operator (Some And)) b
      else pushWhere (Cond col (jsString operator) v (Some And)) b)"

definition whereEq :: "string \<Rightarrow> val \<Rightarrow> builder \<Rightarrow> builder" where
  "whereEq col v b = where3 col v VUndefined b"

text \<open>\<open>where(callback)\<close>: the callback's clauses become one group, unless there are none.\<close>

definition whereNested :: "clause list \<Rightarrow> builder \<Rightarrow> builder" where
  "whereNested nestedWhere b = (if nestedWhere \<noteq> [] then pushWhere (Group nestedWhere (Some And)) b else b)"

definition whereIn :: "string \<Rightarrow> val list \<Rightarrow> builder \<Rightarrow> builder" where
  "whereIn col vs b = pushWhere (Cond col ''IN'' (VArr vs) (Some And)) b"

definition whereNotIn :: "string \<Rightarrow> val list \<Rightarrow> builder \<Rightarrow> builder" where
  "whereNotIn col vs b = pushWhere (Cond col ''NOT IN'' (VArr vs) (Some And)) b"

definition whereNull :: "string \<Rightarrow> builder \<Rightarrow> builder" where
  "whereNull col b = pushWhere (Cond col ''='' VNull (Some And)) b"

definition whereNotNull :: "string \<Rightarrow> builder \<Rightarrow> builder" where
  "whereNotNull col b = pushWhere (Cond col ''!='' VNull (Some And)) b"

definition whereBetween :: "string \<Rightarrow> val \<Rightarrow> val \<Rightarrow> builder \<Rightarrow> builder" where
  "whereBetween col lo hi b = pushWhere (Cond col ''BETWEEN'' (VArr [lo, hi]) (Some And)) b"

definition whereHas :: "string \<Rightarrow> cbstate option \<Rightarrow> string \<Rightarrow> int \<Rightarrow> builder \<Rightarrow> builder" where
  "whereHas rel cb operator n b =
     b\<lparr>hasConditions := hasConditions b @ [HasCond rel (Some operator) (Some n) cb]\<rparr>"

definition whereDoesntHave :: "string \<Rightarrow> cbstate option \<Rightarrow> builder \<Rightarrow> builder" where
  "whereDoesntHave rel cb b =
     b\<lparr>hasConditions := hasConditions b @ [HasCond rel (Some ''='') (Some 0) cb]\<rparr>"

text \<open>
  The guard at the head of both \<open>buildWhereClause\<close> and \<open>buildMongoFilter\<close> (the same
  text in both): the automatic \<open>deleted_at = null\<close> clause.
\<close>

definition softDeleteClause :: clause where
  "softDeleteClause = Cond ''deleted_at'' ''='' VNull (Some And)"

definition injectSoftDelete :: "builder \<Rightarrow> builder" where
  "injectSoftDelete b =
     (if \<not> appliedSoftDeleteFilter b \<and> softDeletes (bmodel b) \<and> \<not> includeTrashed b
         \<and> \<not> onlyTrashedFlag b \<and> \<not> list_ex (\<lambda>w. column w = ''deleted_at'') (whereClauses b)
      then b\<lparr>whereClauses := whereClauses b @ [softDeleteClause], appliedSoftDeleteFilter := True\<rparr>
      else b)"

section \<open>The SQL compiler (buildWhereClause, buildNestedWhere)\<close>

text \<open>
  One pushed element of \<open>parts\<close>. Each constructor is one of the templates of the
  source; \<open>render\<close> gives its text. The first field is \<open>boolOp\<close>
  (\<open>''\<close>, \<open>'AND '\<close> or \<open>'OR '\<close>).
\<close>

datatype sqlpart =
    PNested string "sqlpart list"   \<comment> \<open>\<open>`${boolOp}(${nested.sql})`\<close>\<close>
  | PIn string string string nat    \<comment> \<open>\<open>`${boolOp}${col} ${kw} (${placeholders})`\<close>\<close>
  | PBetween string string string   \<comment> \<open>\<open>`${boolOp}${col} ${kw} ? AND ?`\<close>\<close>
  | PNull string string string      \<comment> \<open>\<open>`${boolOp}${col} ${sqlOp} NULL`\<close>\<close>
  | PCmp string string string       \<comment> \<open>\<open>`${boolOp}${col} ${OPERATOR} ?`\<close>\<close>

fun render :: "sqlpart \<Rightarrow> string" where
  "render (PNested boolOp ps) = boolOp @ ''('' @ trim (join '' '' (map render ps)) @ '')''"
| "render (PIn boolOp col kw n) = boolOp @ col @ '' '' @ kw @ '' ('' @ join '', '' (replicate n ''?'') @ '')''"
| "render (PBetween boolOp col kw) = boolOp @ col @ '' '' @ kw @ '' ? AND ?''"
| "render (PNull boolOp col sqlOp) = boolOp @ col @ '' '' @ sqlOp @ '' NULL''"
| "render (PCmp boolOp col opr) = boolOp @ col @ '' '' @ opr @ '' ?''"

definition qualify :: "string option \<Rightarrow> string \<Rightarrow> string" where
  "qualify qualifier name =
     (let n = trim name in
      if n = [] then n
      else if CHR ''.'' \<in> set n then n
      else (case qualifier of
              Some q \<Rightarrow> if q \<noteq> [] then q @ ''.'' @ n else n
            | None \<Rightarrow> n))"

definition boolOpOf :: "bool \<Rightarrow> conn option \<Rightarrow> string" where
  "boolOpOf isFirst b = (if isFirst then [] else toUpperCase (connText b) @ '' '')"

text \<open>\<open>IS\<close> / \<open>IS NOT\<close> / the operator itself, for a \<open>null\<close> value.\<close>

definition nullOp :: "string \<Rightarrow> string \<Rightarrow> string" where
  "nullOp op fallback =
     (if op = ''='' then ''IS'' else if op = ''!='' \<or> op = ''<>'' then ''IS NOT'' else fallback)"

text \<open>
  The body of the \<open>forEach\<close> in \<open>buildNestedWhere\<close> for one clause: the part pushed and
  the parameters pushed. A group inside a group has no case of its own there: its
  clause list is the value, which is an array but not under \<open>in\<close>, and falls through to
  the last branch, with the clause list as the parameter (rendered as \<open>VArr []\<close>).
\<close>

fun nestedPart :: "string option \<Rightarrow> bool \<Rightarrow> clause \<Rightarrow> sqlpart \<times> val list" where
  "nestedPart q isFirst (Cond col opr v b) =
     (let boolOp = boolOpOf isFirst b in
      if isArray v \<and> toLowerCase opr = ''in''
      then (PIn boolOp (qualify q col) ''IN'' (length (elems v)), elems v)
      else if v = VNull
      then (let op = toLowerCase (orElse opr ''='') in
            (PNull boolOp (qualify q col) (nullOp op (toUpperCase op)), []))
      else (PCmp boolOp (qualify q col) (toUpperCase (orElse opr ''='')), [v]))"
| "nestedPart q isFirst (Group cs b) =
     (PCmp (boolOpOf isFirst b) (qualify q []) ''NESTED'', [VArr []])"

fun nestedParts :: "string option \<Rightarrow> bool \<Rightarrow> clause list \<Rightarrow> sqlpart list \<times> val list" where
  "nestedParts q isFirst [] = ([], [])"
| "nestedParts q isFirst (w # ws) =
     (let (p, ps) = nestedPart q isFirst w; (rest, restParams) = nestedParts q False ws
      in (p # rest, ps @ restParams))"

definition sqlText :: "sqlpart list \<Rightarrow> string" where
  "sqlText ps = trim (join '' '' (map render ps))"

text \<open>\<open>buildNestedWhere\<close> returns \<open>{sql: parts.join(' ').trim(), params}\<close>.\<close>

definition buildNestedWhere :: "string option \<Rightarrow> clause list \<Rightarrow> sqlpart list \<times> val list" where
  "buildNestedWhere q clauses = nestedParts q True clauses"

text \<open>
  The body of the \<open>forEach\<close> in \<open>buildWhereClause\<close> for one clause: the part pushed, if
  any, and the parameters pushed.
\<close>

fun wherePart :: "string option \<Rightarrow> bool \<Rightarrow> clause \<Rightarrow> sqlpart option \<times> val list" where
  "wherePart q isFirst (Group cs b) =
     (let (nested, nestedParams) = buildNestedWhere q cs in
      if sqlText nested \<noteq> [] then (Some (PNested (boolOpOf isFirst b) nested), nestedParams)
      else (None, []))"
| "wherePart q isFirst (Cond col opr v b) =
     (let boolOp = boolOpOf isFirst b;
          op = toLowerCase (orElse opr ''='');
          c = qualify q col in
      if isArray v \<and> (op = ''in'' \<or> op = ''not in'')
      then (Some (PIn boolOp c (if op = ''in'' then ''IN'' else ''NOT IN'') (length (elems v))), elems v)
      else if isArray v \<and> (op = ''between'' \<or> op = ''not between'')
      then (Some (PBetween boolOp c (if op = ''between'' then ''BETWEEN'' else ''NOT BETWEEN'')),
            [case elems v of [] \<Rightarrow> VUndefined | a # _ \<Rightarrow> a,
             case elems v of a # b # _ \<Rightarrow> b | _ \<Rightarrow> VUndefined])
      else if v = VNull
      then (Some (PNull boolOp c (nullOp op (toUpperCase (orElse opr ''='')))), [])
      else (Some (PCmp boolOp c (toUpperCase (orElse opr ''=''))), [v]))"

fun whereParts :: "string option \<Rightarrow> bool \<Rightarrow> clause list \<Rightarrow> sqlpart list \<times> val list" where
  "whereParts q isFirst [] = ([], [])"
| "whereParts q isFirst (w # ws) =
     (let (p, ps) = wherePart q isFirst w; (rest, restParams) = whereParts q False ws
      in ((case p of None \<Rightarrow> rest | Some x \<Rightarrow> x # rest), ps @ restParams))"

text \<open>
  \<open>buildWhereClause\<close>: the compiled clause (its parts, its text and its parameters) and
  the builder as the call leaves it.
\<close>

record compiled =
  parts :: "sqlpart list"
  sql :: string
  params :: "val list"

definition buildWhereClause :: "builder \<Rightarrow> compiled \<times> builder" where
  "buildWhereClause b0 =
     (let b = injectSoftDelete b0 in
      if whereClauses b = [] then (\<lparr>parts = [], sql = [], params = []\<rparr>, b)
      else (let (ps, prm) = whereParts (columnQualifier b) True (whereClauses b)
            in (\<lparr>parts = ps, sql = '' WHERE '' @ sqlText ps, params = prm\<rparr>, b)))"

section \<open>The document compiler (buildMongoFilter)\<close>

text \<open>
  A filter document: \<open>{}\<close>, \<open>{[col]: v}\<close>, \<open>{[col]: {$op: v, ...}}\<close>,
  \<open>{$and: [...]}\<close> and \<open>{$or: [...]}\<close>.
\<close>

datatype mfilter =
    MEmptyDoc
  | MEq string val
  | MOps string "(string \<times> val) list"
  | MAnd "mfilter list"
  | MOr "mfilter list"

definition normalizeField :: "model \<Rightarrow> string \<Rightarrow> string" where
  "normalizeField m field =
     (let pk = orElse (primaryKey m) ''id'' in
      if field = pk \<and> pk = ''id'' then ''_id'' else field)"

text \<open>
  \<open>coerceId\<close>: \<open>new ObjectId(String(val))\<close>, falling back to the value when the
  constructor throws. The driver's constructor is taken to accept exactly the 24-digit
  hex strings.
\<close>

definition coerceId :: "val \<Rightarrow> val" where
  "coerceId v =
     (if isNullish v then v
      else if isHex24 (jsString v) then VObjectId (jsString v) else v)"

definition isIdLikeField :: "model \<Rightarrow> string \<Rightarrow> bool" where
  "isIdLikeField m field = (let f = normalizeField m field in f = ''_id'' \<or> endsWithId f)"

fun isObjectId :: "val \<Rightarrow> bool" where
  "isObjectId (VObjectId _) = True"
| "isObjectId _ = False"

definition coerceForField :: "model \<Rightarrow> string \<Rightarrow> val \<Rightarrow> val" where
  "coerceForField m field v =
     (if isNullish v then v
      else if \<not> isIdLikeField m field then v
      else if isObjectId v then v
      else if isHex24 (jsString v) then VObjectId (jsString v)
      else v)"

text \<open>The coercion both the array branch and the simple branch of \<open>toFilter\<close> apply.\<close>

definition coerceValue :: "model \<Rightarrow> string \<Rightarrow> val \<Rightarrow> val" where
  "coerceValue m col v =
     (if isIdLikeField m col then coerceForField m col v
      else if normalizeField m col = ''_id'' then coerceId v
      else v)"

definition replacePercent :: "string \<Rightarrow> string" where
  "replacePercent s = concat (map (\<lambda>c. if c = CHR ''%'' then ''.*'' else [c]) s)"

text \<open>\<open>toFilter\<close> for a predicate clause.\<close>

definition condFilter :: "model \<Rightarrow> string \<Rightarrow> string \<Rightarrow> val \<Rightarrow> mfilter" where
  "condFilter m wcol opr v =
     (let op = toLowerCase (orElse opr ''='');
          col = normalizeField m wcol in
      if isArray v \<and> (op = ''in'' \<or> op = ''not in'')
      then MOps col [(if op = ''in'' then ''$in'' else ''$nin'', VArr (map (coerceValue m wcol) (elems v)))]
      else if isArray v \<and> (op = ''between'' \<or> op = ''not between'')
      then (let a = (case elems v of [] \<Rightarrow> VUndefined | x # _ \<Rightarrow> x);
                b = (case elems v of x # y # _ \<Rightarrow> y | _ \<Rightarrow> VUndefined) in
            if op = ''between'' then MOps col [(''$gte'', a), (''$lte'', b)]
            else MOr [MOps col [(''$lt'', a)], MOps col [(''$gt'', b)]])
      else if v = VNull \<and> op = ''='' then MEq col VNull
      else if v = VNull \<and> (op = ''!='' \<or> op = ''<>'') then MOps col [(''$ne'', VNull)]
      else (let x = coerceValue m wcol v in
            if op = ''='' then MEq col x
            else if op = ''!='' \<or> op = ''<>'' then MOps col [(''$ne'', x)]
            else if op = ''>'' then MOps col [(''$gt'', x)]
            else if op = ''>='' then MOps col [(''$gte'', x)]
            else if op = ''<'' then MOps col [(''$lt'', x)]
            else if op = ''<='' then MOps col [(''$lte'', x)]
            else if op = ''like'' then MOps col [(''$regex'', VStr (replacePercent (jsString x))), (''$options'', VStr ''i'')]
            else MEq col x))"

text \<open>
  The loop at the end of \<open>buildMongoFilter\<close>: empty filters are skipped, the others go
  to \<open>orParts\<close> or \<open>andParts\<close> by the clause's connective.
\<close>

definition combineParts :: "(mfilter \<times> clause) list \<Rightarrow> mfilter" where
  "combineParts rs =
     (let kept = filter (\<lambda>(f, w). f \<noteq> MEmptyDoc) rs;
          orParts = map fst (filter (\<lambda>(f, w). connText (boolean w) = ''or'') kept);
          andParts = map fst (filter (\<lambda>(f, w). connText (boolean w) \<noteq> ''or'') kept) in
      if orParts \<noteq> [] \<and> andParts \<noteq> [] then MAnd [MAnd andParts, MOr orParts]
      else if orParts \<noteq> [] then MOr orParts
      else if andParts \<noteq> [] then MAnd andParts
      else MEmptyDoc)"

text \<open>
  \<open>toFilter\<close>, returning the filter and the clause as the call leaves it. For a group
  the source builds a fresh builder of the same model over the group's own clause
  array and calls \<open>buildMongoFilter\<close> on it; that call runs the soft-delete guard with
  the fresh builder's flags, so the \<open>deleted_at\<close> clause may be pushed onto the group's
  array, where it stays.
\<close>

fun toFilter :: "model \<Rightarrow> clause \<Rightarrow> mfilter \<times> clause" where
  "toFilter m (Cond col opr v b) = (condFilter m col opr v, Cond col opr v b)"
| "toFilter m (Group cs b) =
     (let inject = (softDeletes m \<and> \<not> list_ex (\<lambda>w. column w = ''deleted_at'') cs);
          rs = map (toFilter m) cs @ (if inject then [(condFilter m ''deleted_at'' ''='' VNull, softDeleteClause)] else [])
      in if rs = [] then (MEmptyDoc, Group [] b) else (combineParts rs, Group (map snd rs) b))"

text \<open>\<open>buildMongoFilter\<close>: the filter and the builder as the call leaves it.\<close>

definition buildMongoFilter :: "builder \<Rightarrow> mfilter \<times> builder" where
  "buildMongoFilter b0 =
     (let b = injectSoftDelete b0 in
      if whereClauses b = [] then (MEmptyDoc, b)
      else (let rs = map (toFilter (bmodel b)) (whereClauses b)
            in (combineParts rs, b\<lparr>whereClauses := map snd rs\<rparr>)))"

section \<open>Terminal operations as clause compilations\<close>

text \<open>
  Every terminal operation of the builder (\<open>get\<close>, \<open>count\<close>, \<open>update\<close>, \<open>delete\<close>,
  \<open>paginate\<close>, ...) compiles the clause list through \<open>buildWhereClause\<close> on the SQL
  backend or \<open>buildMongoFilter\<close> on the document backend, and keeps using the builder
  the compilation left behind.
\<close>

datatype terminal = CompileSql | CompileMongo

fun runTerminal :: "terminal \<Rightarrow> builder \<Rightarrow> builder" where
  "runTerminal CompileSql b = snd (buildWhereClause b)"
| "runTerminal CompileMongo b = snd (buildMongoFilter b)"

fun runTerminals :: "terminal list \<Rightarrow> builder \<Rightarrow> builder" where
  "runTerminals [] b = b"
| "runTerminals (t # ts) b = runTerminals ts (runTerminal t b)"

definition hasDeletedAtClause :: "builder \<Rightarrow> bool" where
  "hasDeletedAtClause b = list_ex (\<lambda>w. column w = ''deleted_at'') (whereClauses b)"

text \<open>A builder on which the guard of the compilers can no longer fire.\<close>

definition settled :: "builder \<Rightarrow> bool" where
  "settled b = (appliedSoftDeleteFilter b \<or> \<not> softDeletes (bmodel b) \<or> includeTrashed b
     \<or> onlyTrashedFlag b \<or> hasDeletedAtClause b)"

text \<open>A soft-deletable entity type used in the examples below.\<close>

definition exampleUser :: model where
  "exampleUser = \<lparr>className = ''User'', table = ''users'', primaryKey = ''id'', fillable = [],
     guarded = [], hidden = [], appends = [], casts = [], accessors = [], derivedTable = ''users'',
     timestamps = True, softDeletes = True, autoIncrement = True, relationships = [],
     relationMethods = []\<rparr>"

section \<open>The store drivers\<close>

text \<open>A plain object (row, document, attribute map): its properties in insertion order.\<close>

type_synonym obj = "(string \<times> val) list"

definition getProp :: "obj \<Rightarrow> string \<Rightarrow> val" where
  "getProp ob key = (case map_of ob key of None \<Rightarrow> VUndefined | Some v \<Rightarrow> v)"

definition hasProp :: "obj \<Rightarrow> string \<Rightarrow> bool" where
  "hasProp ob key = (key \<in> set (map fst ob))"

text \<open>\<open>obj[key] = value\<close>: an existing property keeps its place, a new one goes last.\<close>

fun setProp :: "string \<Rightarrow> 'a \<Rightarrow> (string \<times> 'a) list \<Rightarrow> (string \<times> 'a) list" where
  "setProp key v [] = [(key, v)]"
| "setProp key v ((k, x) # rest) = (if k = key then (k, v) # rest else (k, x) # setProp key v rest)"

definition delProp :: "string \<Rightarrow> obj \<Rightarrow> obj" where
  "delProp key ob = filter (\<lambda>(k, v). k \<noteq> key) ob"

text \<open>
  What the engine sends to a store: \<open>dbQuery(sql, params)\<close> on the SQL side and the
  collection calls on the document side. A filter document is given by its fields.
\<close>

datatype storeop =
    DbQuery string "val list"
  | InsertOne string obj
  | UpdateOne string "mfilter list" obj bool
  | DeleteMany string "mfilter list"
  | Find string "mfilter list" "string list"

text \<open>
  What comes back: rows, a result object (\<open>insertId\<close>, \<open>affectedRows\<close>, \<open>insertedId\<close>,
  \<open>deletedCount\<close>, ...) or a thrown driver error.
\<close>

datatype reply = Rows "obj list" | Result obj | Thrown

type_synonym 's driver = "'s \<Rightarrow> storeop \<Rightarrow> reply \<times> 's"

fun resultField :: "reply \<Rightarrow> string \<Rightarrow> val" where
  "resultField (Result r) key = getProp r key"
| "resultField _ key = VUndefined"

fun replyRows :: "reply \<Rightarrow> obj list" where
  "replyRows (Rows rs) = rs"
| "replyRows _ = []"

datatype 'a outcome = Done 'a | Raised

text \<open>A driver for examples: it records every operation and answers with a fixed reply.\<close>

definition logDriver :: "reply \<Rightarrow> storeop list driver" where
  "logDriver r = (\<lambda>log operation. (r, log @ [operation]))"

section \<open>Entities (Model)\<close>

record entity =
  emodel :: model
  attributes :: obj
  original :: obj
  relationshipsLoaded :: obj
  exists :: bool
  attributeCache :: obj

definition castAttribute :: "model \<Rightarrow> string \<Rightarrow> val \<Rightarrow> val" where
  "castAttribute m key v = (case map_of (casts m) key of Some f \<Rightarrow> f v | None \<Rightarrow> v)"

definition setAttribute :: "string \<Rightarrow> val \<Rightarrow> entity \<Rightarrow> entity" where
  "setAttribute key v e =
     e\<lparr>attributes := setProp key (castAttribute (emodel e) key v) (attributes e),
       attributeCache := delProp key (attributeCache e)\<rparr>"

fun setAttributes :: "obj \<Rightarrow> entity \<Rightarrow> entity" where
  "setAttributes [] e = e"
| "setAttributes ((k, v) # rest) e = setAttributes rest (setAttribute k v e)"

text \<open>\<open>hydrate(row)\<close>; a row is an object, so its keys are distinct.\<close>

definition hydrate :: "obj \<Rightarrow> entity \<Rightarrow> entity" where
  "hydrate row e =
     (let e1 = setAttributes row e
      in e1\<lparr>original := attributes e1, exists := True, attributeCache := []\<rparr>)"

definition fill :: "obj \<Rightarrow> entity \<Rightarrow> entity" where
  "fill input e =
     setAttributes
       (filter (\<lambda>(k, v). (fillable (emodel e) = [] \<or> k \<in> set (fillable (emodel e)))
                         \<and> k \<notin> set (guarded (emodel e))) input) e"

text \<open>\<open>new Model(attributes)\<close>.\<close>

definition newModel :: "model \<Rightarrow> obj \<Rightarrow> entity" where
  "newModel m input =
     (let e = fill input \<lparr>emodel = m, attributes = [], original = [], relationshipsLoaded = [],
                           exists = False, attributeCache = []\<rparr>
      in e\<lparr>original := attributes e\<rparr>)"

subsection \<open>Dirty tracking\<close>

text \<open>\<open>JSON.stringify\<close> of a string: quotes and backslashes escaped.\<close>

definition jsonQuote :: "string \<Rightarrow> string" where
  "jsonQuote s = ''\"'' @ concat (map (\<lambda>c. if c = CHR ''\"'' \<or> c = CHR 0x5C then [CHR 0x5C, c] else [c]) s) @ ''\"''"

text \<open>
  \<open>JSON.stringify\<close> of a value; \<open>None\<close> where it yields \<open>undefined\<close>. An \<open>ObjectId\<close> and a
  \<open>Date\<close> serialize through their \<open>toJSON\<close> as strings; a model instance is abbreviated
  to its address.
\<close>

fun jsonValue :: "val \<Rightarrow> string option" where
  "jsonValue VUndefined = None"
| "jsonValue VNull = Some ''null''"
| "jsonValue (VBool b) = Some (if b then ''true'' else ''false'')"
| "jsonValue (VNum n) = Some (jsString (VNum n))"
| "jsonValue VNaN = Some ''null''"
| "jsonValue (VStr s) = Some (jsonQuote s)"
| "jsonValue (VObjectId h) = Some (jsonQuote h)"
| "jsonValue (VDate t) = Some (jsonQuote (jsString (VDate t)))"
| "jsonValue (VArr vs) =
     Some (''['' @ join '','' (map (\<lambda>v. case jsonValue v of None \<Rightarrow> ''null'' | Some s \<Rightarrow> s) vs) @ '']'')"
| "jsonValue (VRef r) = Some (''{#'' @ showInt (int r) @ ''}'')"

definition jsonStringify :: "obj \<Rightarrow> string" where
  "jsonStringify ob =
     ''{'' @ join '','' (concat (map (\<lambda>(k, v). case jsonValue v of None \<Rightarrow> []
                                                | Some s \<Rightarrow> [jsonQuote k @ '':'' @ s]) ob)) @ ''}''"


definition isDirty :: "entity \<Rightarrow> bool" where
  "isDirty e = (jsonStringify (attributes e) \<noteq> jsonStringify (original e))"


subsection \<open>Reading attributes\<close>

text \<open>
  \<open>getAttribute(key, onlyAppended)\<close>: the value and the entity with its cache filled.
  The re-entrancy flag only matters while an accessor runs; accessors here do not call
  back into the entity.
\<close>

definition getAttribute :: "string \<Rightarrow> bool \<Rightarrow> entity \<Rightarrow> val \<times> entity" where
  "getAttribute key onlyAppended e =
     (if onlyAppended \<and> key \<notin> set (appends (emodel e)) then (VUndefined, e)
      else if hasProp (attributeCache e) key then (getProp (attributeCache e) key, e)
      else (let stored = (if hasProp (attributes e) key then getProp (attributes e) key
                          else if truthy (getProp (relationshipsLoaded e) key)
                               then getProp (relationshipsLoaded e) key
                          else VUndefined);
                v = (case map_of (accessors (emodel e)) key of
                       Some f \<Rightarrow> f stored (attributes e)
                     | None \<Rightarrow> stored)
            in if v \<noteq> VUndefined then (v, e\<lparr>attributeCache := setProp key v (attributeCache e)\<rparr>)
               else (v, e)))"

subsection \<open>Saving\<close>




text \<open>
  \<open>save(options)\<close>, given the backend (\<open>getDbType() === 'mongodb'\<close>), the clock and the
  driver. It yields the saved entity, or \<open>Raised\<close> when the driver (or the
  \<open>ObjectId\<close> constructor of the update filter) throws. The four branches of the body
  (insert or update, on either backend) are written as functions of their own.
\<close>








subsection \<open>The integer cast\<close>

definition digitValue :: "char \<Rightarrow> nat" where
  "digitValue c = (case map_of (zip digitChars [0..<10]) c of Some d \<Rightarrow> d | None \<Rightarrow> 0)"

text \<open>
  \<open>parseInt(value, 10)\<close>, the cast \<open>'int'\<close>/\<open>'integer'\<close>: leading white space, an optional
  sign, then the longest run of digits; \<open>NaN\<close> when there is no digit.
\<close>

definition castInteger :: "val \<Rightarrow> val" where
  "castInteger v =
     (let s = dropWhile isSpace (jsString v);
          neg = (s \<noteq> [] \<and> hd s = CHR ''-'');
          body = (if s \<noteq> [] \<and> (hd s = CHR ''-'' \<or> hd s = CHR ''+'') then tl s else s);
          ds = takeWhile (\<lambda>c. c \<in> set digitChars) body;
          n = foldl (\<lambda>acc c. 10 * acc + int (digitValue c)) 0 ds
      in if ds = [] then VNaN else VNum (if neg then - n else n))"

text \<open>An entity type that casts its field \<open>age\<close> to an integer.\<close>

definition examplePerson :: model where
  "examplePerson = \<lparr>className = ''Person'', table = ''people'', primaryKey = ''id'', fillable = [],
     guarded = [], hidden = [], appends = [], casts = [(''age'', castInteger)], accessors = [],
     derivedTable = ''people'', timestamps = False, softDeletes = False, autoIncrement = True,
     relationships = [], relationMethods = []\<rparr>"

section \<open>Many-to-many associations (relationships.ts, BelongsToMany)\<close>

record belongsToMany =
  relatedModel :: model
  pivotTable :: string
  foreignPivotKey :: string
  relatedPivotKey :: string
  parentPrimaryKey :: string
  relatedPrimaryKey :: string
  parent :: entity

text \<open>
  \<open>this.parent.getAttribute(this.parentPrimaryKey)\<close>. The call may also fill the
  parent's attribute cache; that effect on the parent is left out here.
\<close>

definition parentId :: "belongsToMany \<Rightarrow> val" where
  "parentId rel = fst (getAttribute (parentPrimaryKey rel) False (parent rel))"

text \<open>\<open>toObjectIdIfHex\<close> and \<open>coerceFK\<close>.\<close>

definition toObjectIdIfHex :: "val \<Rightarrow> val" where
  "toObjectIdIfHex v =
     (if isNullish v then v
      else if isObjectId v then v
      else if isHex24 (jsString v) then VObjectId (jsString v)
      else v)"

definition coerceFK :: "string \<Rightarrow> val \<Rightarrow> val" where
  "coerceFK field v = (if endsWithId field then toObjectIdIfHex v else v)"

text \<open>\<open>{ ...a, ...b }\<close>.\<close>

definition spread :: "obj \<Rightarrow> obj \<Rightarrow> obj" where
  "spread a b = foldl (\<lambda>acc (k, v). setProp k v acc) a b"

text \<open>
  \<open>Array.from(new Set(xs))\<close>: first occurrences, in order. (A JavaScript \<open>Set\<close> keeps two
  \<open>ObjectId\<close> objects of the same hex apart; they are merged here.)
\<close>

definition uniqueVals :: "val list \<Rightarrow> val list" where
  "uniqueVals xs = rev (remdups (rev xs))"

text \<open>An element of the argument of \<open>attach\<close> and \<open>sync\<close>: a bare key or a record.\<close>

datatype attachment = ById val | ByRecord obj

text \<open>Sequencing of store calls: a thrown driver error ends the operation.\<close>

fun thenDo :: "'a outcome \<times> 's \<Rightarrow> ('a \<Rightarrow> 's \<Rightarrow> 'b outcome \<times> 's) \<Rightarrow> 'b outcome \<times> 's" where
  "thenDo (Done x, s) f = f x s"
| "thenDo (Raised, s) f = (Raised, s)"

definition call :: "'s driver \<Rightarrow> storeop \<Rightarrow> 's \<Rightarrow> reply outcome \<times> 's" where
  "call exec operation s = (case exec s operation of (Thrown, s1) \<Rightarrow> (Raised, s1) | (r, s1) \<Rightarrow> (Done r, s1))"

text \<open>The body of the loop of \<open>attach\<close> for one attachment.\<close>

definition attachOne ::
  "'s driver \<Rightarrow> bool \<Rightarrow> belongsToMany \<Rightarrow> val \<Rightarrow> obj \<Rightarrow> attachment \<Rightarrow> 's \<Rightarrow> unit outcome \<times> 's" where
  "attachOne exec isMongo rel pid extra att s =
     (let (actualRelatedId, pivotData) =
            (case att of
               ById v \<Rightarrow> (v, extra)
             | ByRecord r \<Rightarrow> (getProp r (relatedPrimaryKey rel),
                              delProp (relatedPrimaryKey rel) (spread r extra)))
      in if isMongo then
           (let pidc = coerceFK (foreignPivotKey rel) pid;
                rid = coerceFK (relatedPivotKey rel) actualRelatedId
            in thenDo (call exec (UpdateOne (pivotTable rel)
                         [MEq (foreignPivotKey rel) pidc, MEq (relatedPivotKey rel) rid]
                         (setProp (relatedPivotKey rel) rid (setProp (foreignPivotKey rel) pidc pivotData))
                         True) s)
                 (\<lambda>r s1. (Done (), s1)))
         else
           (let columns = [foreignPivotKey rel, relatedPivotKey rel] @ map fst pivotData;
                placeholders = join '','' (map (\<lambda>c. ''?'') columns);
                vals = [pid, actualRelatedId] @ map snd pivotData
            in if pivotData = [] then
                 thenDo (call exec (DbQuery (''INSERT IGNORE INTO '' @ pivotTable rel @ '' ('' @ join '','' columns
                            @ '') VALUES ('' @ placeholders @ '')'') vals) s)
                   (\<lambda>r s1. (Done (), s1))
               else
                 thenDo (call exec (DbQuery (''INSERT INTO '' @ pivotTable rel @ '' ('' @ join '','' columns
                            @ '') VALUES ('' @ placeholders @ '') ON DUPLICATE KEY UPDATE ''
                            @ join '', '' (map (\<lambda>k. k @ '' = ?'') (map fst pivotData)))
                          (vals @ map snd pivotData)) s)
                   (\<lambda>r s1. (Done (), s1))))"

fun attachEach ::
  "'s driver \<Rightarrow> bool \<Rightarrow> belongsToMany \<Rightarrow> val \<Rightarrow> obj \<Rightarrow> attachment list \<Rightarrow> 's \<Rightarrow> unit outcome \<times> 's" where
  "attachEach exec isMongo rel pid extra [] s = (Done (), s)"
| "attachEach exec isMongo rel pid extra (a # rest) s =
     thenDo (attachOne exec isMongo rel pid extra a s) (\<lambda>u s1. attachEach exec isMongo rel pid extra rest s1)"

text \<open>\<open>attach(relatedId, extra)\<close>; a single id or record is the one-element list.\<close>

definition attach ::
  "'s driver \<Rightarrow> bool \<Rightarrow> belongsToMany \<Rightarrow> attachment list \<Rightarrow> obj \<Rightarrow> 's \<Rightarrow> unit outcome \<times> 's" where
  "attach exec isMongo rel attachments extra s =
     (let pid = parentId rel in
      if isNullish pid then (Done (), s)
      else attachEach exec isMongo rel pid extra attachments s)"

text \<open>The identifier forms \<open>detach\<close> and \<open>toggle\<close> match on the document store.\<close>

definition idForms :: "string \<Rightarrow> val \<Rightarrow> val list" where
  "idForms field v =
     (let s = jsString v; n = castInteger (VStr s) in
      [coerceFK field v, VStr s] @ (if n \<noteq> VNaN then [n] else [])
        @ (if isHex24 s then [VObjectId s] else []))"

definition parentForms :: "string \<Rightarrow> val \<Rightarrow> val list" where
  "parentForms field v =
     map (\<lambda>x. case x of VStr t \<Rightarrow> if isHex24 t then VObjectId t else x | _ \<Rightarrow> x)
       (uniqueVals (map (\<lambda>x. if isObjectId x then x else VStr (jsString x)) (idForms field v)))"

text \<open>\<open>Number(x || 0)\<close> and \<open>x || 0\<close> for a count field of a result object.\<close>

definition orZero :: "val \<Rightarrow> val" where
  "orZero v = (if truthy v then v else VNum 0)"

definition allDigits :: "string \<Rightarrow> bool" where
  "allDigits s = (s \<noteq> [] \<and> list_all (\<lambda>c. c \<in> set digitChars) s)"

text \<open>
  \<open>Number(v)\<close>. For a string: empty is 0, an optionally signed run of decimal digits
  is its value, anything else is \<open>NaN\<close> (fractions, exponents and hexadecimal notation
  are not modelled).
\<close>

fun toNumber :: "val \<Rightarrow> val" where
  "toNumber (VNum n) = VNum n"
| "toNumber (VBool b) = VNum (if b then 1 else 0)"
| "toNumber VNull = VNum 0"
| "toNumber (VStr s) =
     (let t = trim s;
          body = (if t \<noteq> [] \<and> (hd t = CHR ''-'' \<or> hd t = CHR ''+'') then tl t else t)
      in if t = [] then VNum 0 else if allDigits body then castInteger (VStr t) else VNaN)"
| "toNumber (VDate t) = VNum t"
| "toNumber _ = VNaN"

text \<open>\<open>detach(relatedIds?)\<close>.\<close>

definition detach ::
  "'s driver \<Rightarrow> bool \<Rightarrow> belongsToMany \<Rightarrow> val list option \<Rightarrow> 's \<Rightarrow> val outcome \<times> 's" where
  "detach exec isMongo rel relatedIds s =
     (let pid = parentId rel in
      if isNullish pid then (Done (VNum 0), s)
      else if isMongo then
        (let pforms = parentForms (foreignPivotKey rel) pid in
         case relatedIds of
           Some (i # ids) \<Rightarrow>
             (let relForms = uniqueVals (concat (map (idForms (relatedPivotKey rel)) (i # ids)))
              in thenDo (call exec (DeleteMany (pivotTable rel)
                           [MOps (foreignPivotKey rel) [(''$in'', VArr pforms)],
                            MOps (relatedPivotKey rel) [(''$in'', VArr relForms)]]) s)
                   (\<lambda>res s1. (Done (toNumber (orZero (resultField res ''deletedCount''))), s1)))
         | _ \<Rightarrow>
             thenDo (call exec (DeleteMany (pivotTable rel)
                       [MOps (foreignPivotKey rel) [(''$in'', VArr pforms)]]) s)
               (\<lambda>res s1. (Done (toNumber (orZero (resultField res ''deletedCount''))), s1)))
      else
        (let base = ''DELETE FROM '' @ pivotTable rel @ '' WHERE '' @ foreignPivotKey rel @ '' = ?'';
             (stmt, prm) = (case relatedIds of
                              Some (i # ids) \<Rightarrow>
                                (base @ '' AND '' @ relatedPivotKey rel @ '' IN (''
                                   @ join '','' (map (\<lambda>x. ''?'') (i # ids)) @ '')'', [pid] @ (i # ids))
                            | _ \<Rightarrow> (base, [pid]))
         in thenDo (call exec (DbQuery stmt prm) s)
              (\<lambda>res s1. (Done (orZero (resultField res ''affectedRows'')), s1))))"

record syncResult =
  attached :: "val list"
  detached :: "val list"
  updated :: "val list"

text \<open>The first loop of \<open>sync\<close>, over the supplied ids, carrying \<open>newIds\<close>, \<open>attached\<close>, \<open>updated\<close>.\<close>

fun syncEach ::
  "'s driver \<Rightarrow> bool \<Rightarrow> belongsToMany \<Rightarrow> val \<Rightarrow> val list \<Rightarrow> attachment list
     \<Rightarrow> val list \<times> val list \<times> val list \<Rightarrow> 's \<Rightarrow> (val list \<times> val list \<times> val list) outcome \<times> 's" where
  "syncEach exec isMongo rel pid currentIds [] acc s = (Done acc, s)"
| "syncEach exec isMongo rel pid currentIds (related # rest) (newIds, att, upd) s =
     (let (actualId, extraData) =
            (case related of
               ById v \<Rightarrow> (v, [])
             | ByRecord r \<Rightarrow> (getProp r (relatedPrimaryKey rel), delProp (relatedPrimaryKey rel) r));
          newIds' = newIds @ [VStr (jsString actualId)]
      in if VStr (jsString actualId) \<in> set currentIds then
           (if extraData \<noteq> [] then
              thenDo
                (if isMongo then
                   call exec (UpdateOne (pivotTable rel)
                     [MEq (foreignPivotKey rel) (coerceFK (foreignPivotKey rel) pid),
                      MEq (relatedPivotKey rel) (coerceFK (relatedPivotKey rel) actualId)]
                     extraData False) s
                 else
                   call exec (DbQuery (''UPDATE '' @ pivotTable rel @ '' SET ''
                       @ join '', '' (map (\<lambda>k. k @ '' = ?'') (map fst extraData))
                       @ '' WHERE '' @ foreignPivotKey rel @ '' = ? AND '' @ relatedPivotKey rel @ '' = ?'')
                     (map snd extraData @ [pid, actualId])) s)
                (\<lambda>r s1. syncEach exec isMongo rel pid currentIds rest (newIds', att, upd @ [actualId]) s1)
            else syncEach exec isMongo rel pid currentIds rest (newIds', att, upd) s)
         else
           thenDo (attach exec isMongo rel
                     [ByRecord (spread [(relatedPrimaryKey rel, actualId)] extraData)] [] s)
             (\<lambda>u s1. syncEach exec isMongo rel pid currentIds rest (newIds', att @ [actualId], upd) s1))"

text \<open>The second loop of \<open>sync\<close>, over the current ids.\<close>

fun detachEach ::
  "'s driver \<Rightarrow> bool \<Rightarrow> belongsToMany \<Rightarrow> val list \<Rightarrow> val list \<Rightarrow> val list \<Rightarrow> 's \<Rightarrow> val list outcome \<times> 's" where
  "detachEach exec isMongo rel newIds [] det s = (Done det, s)"
| "detachEach exec isMongo rel newIds (currentId # rest) det s =
     (if VStr (jsString currentId) \<notin> set newIds then
        thenDo (detach exec isMongo rel (Some [currentId]) s)
          (\<lambda>n s1. detachEach exec isMongo rel newIds rest (det @ [currentId]) s1)
      else detachEach exec isMongo rel newIds rest det s)"

text \<open>\<open>sync(relatedIds, detaching)\<close>.\<close>

definition sync ::
  "'s driver \<Rightarrow> bool \<Rightarrow> belongsToMany \<Rightarrow> attachment list \<Rightarrow> bool \<Rightarrow> 's \<Rightarrow> syncResult outcome \<times> 's" where
  "sync exec isMongo rel relatedIds detaching s =
     (let pid = parentId rel in
      if isNullish pid then (Done \<lparr>attached = [], detached = [], updated = []\<rparr>, s)
      else
        thenDo
          (if isMongo then
             thenDo (call exec (Find (pivotTable rel)
                       [MEq (foreignPivotKey rel) (coerceFK (foreignPivotKey rel) pid)]
                       [relatedPivotKey rel]) s)
               (\<lambda>res s1. (Done (uniqueVals (map (\<lambda>r. VStr (jsString (getProp r (relatedPivotKey rel)))) (replyRows res))), s1))
           else
             thenDo (call exec (DbQuery (''SELECT '' @ relatedPivotKey rel @ '' FROM '' @ pivotTable rel
                       @ '' WHERE '' @ foreignPivotKey rel @ '' = ?'') [pid]) s)
               (\<lambda>res s1. (Done (uniqueVals (map (\<lambda>r. getProp r (relatedPivotKey rel)) (replyRows res))), s1)))
          (\<lambda>currentIds s1.
             thenDo (syncEach exec isMongo rel pid currentIds relatedIds ([], [], []) s1)
               (\<lambda>(newIds, att, upd) s2.
                  thenDo (if detaching then detachEach exec isMongo rel newIds currentIds [] s2
                          else (Done [], s2))
                    (\<lambda>det s3. (Done \<lparr>attached = att, detached = det, updated = upd\<rparr>, s3)))))"

text \<open>\<open>toggle(relatedIds)\<close>; its result is \<open>{attached, detached}\<close>.\<close>

definition toggle ::
  "'s driver \<Rightarrow> bool \<Rightarrow> belongsToMany \<Rightarrow> val list \<Rightarrow> 's \<Rightarrow> (val list \<times> val list) outcome \<times> 's" where
  "toggle exec isMongo rel relatedIds s =
     (let pid = parentId rel in
      if isNullish pid then (Done ([], []), s)
      else
        thenDo
          (if isMongo then
             call exec (Find (pivotTable rel)
               [MEq (foreignPivotKey rel) (coerceFK (foreignPivotKey rel) pid),
                MOps (relatedPivotKey rel)
                  [(''$in'', VArr (uniqueVals (concat (map (idForms (relatedPivotKey rel)) relatedIds))))]]
               [relatedPivotKey rel]) s
           else
             call exec (DbQuery (''SELECT '' @ relatedPivotKey rel @ '' FROM '' @ pivotTable rel @ '' ''
                 @ [CHR 0x0A] @ ''       WHERE '' @ foreignPivotKey rel @ '' = ? AND '' @ relatedPivotKey rel
                 @ '' IN ('' @ join '','' (map (\<lambda>x. ''?'') relatedIds) @ '')'')
               ([pid] @ relatedIds)) s)
          (\<lambda>res s1.
             (let currentIds = map (\<lambda>r. VStr (jsString (getProp r (relatedPivotKey rel)))) (replyRows res);
                  toAttach = filter (\<lambda>i. VStr (jsString i) \<notin> set currentIds) relatedIds;
                  toDetach = filter (\<lambda>i. VStr (jsString i) \<in> set currentIds) relatedIds
              in thenDo (if toAttach \<noteq> [] then attach exec isMongo rel (map ById toAttach) [] s1
                         else (Done (), s1))
                   (\<lambda>u s2.
                      thenDo (if toDetach \<noteq> [] then detach exec isMongo rel (Some toDetach) s2
                              else (Done (VNum 0), s2))
                        (\<lambda>n s3. (Done (toAttach, toDetach), s3))))))"

text \<open>A many-to-many relation of users to people, for the examples.\<close>

definition exampleRelation :: "entity \<Rightarrow> belongsToMany" where
  "exampleRelation p = \<lparr>relatedModel = examplePerson, pivotTable = ''person_user'',
     foreignPivotKey = ''user_id'', relatedPivotKey = ''person_id'', parentPrimaryKey = ''id'',
     relatedPrimaryKey = ''id'', parent = p\<rparr>"

section \<open>Has-conditions (whereHas / whereDoesntHave)\<close>

text \<open>
  The classes of the application, by name: \<open>relMeta.model\<close> is the class a relation
  configuration names.
\<close>

type_synonym classes = "string \<Rightarrow> model"

text \<open>
  The builder a has-condition or eager-load constraint callback leaves behind: a fresh
  builder of the related model, with the column qualifier the caller sets (if any), and
  the state the callback accumulated.
\<close>

definition cbBuilder :: "model \<Rightarrow> string option \<Rightarrow> cbstate \<Rightarrow> builder" where
  "cbBuilder m qualifier st =
     (newBuilder m)\<lparr>columnQualifier := qualifier, whereClauses := cbWhere st,
       hasConditions := cbHas st, includeTrashed := cbIncludeTrashed st,
       onlyTrashedFlag := cbOnlyTrashed st\<rparr>"

text \<open>\<open>where.sql.replace(/^\s*WHERE\s*/i, ' AND ')\<close>.\<close>

definition whereToAnd :: "string \<Rightarrow> string" where
  "whereToAnd s =
     (let t = dropWhile isSpace s in
      if toLowerCase (take 5 t) = ''where'' then '' AND '' @ dropWhile isSpace (drop 5 t) else s)"

definition isHasKind :: "reltype \<Rightarrow> bool" where
  "isHasKind t = (t = HasOne \<or> t = HasMany \<or> t = MorphOne \<or> t = MorphMany)"

text \<open>A template literal prints a missing name as \<open>undefined\<close>.\<close>

fun optText :: "string option \<Rightarrow> string" where
  "optText None = ''undefined''"
| "optText (Some s) = s"

subsection \<open>SQL: correlated subqueries\<close>

text \<open>
  \<open>hasClause\<close> is the body of the \<open>forEach\<close> of \<open>buildHasConditionsSQL\<close> for one
  condition: the clause pushed with its parameters, or nothing when the relation has no
  descriptor (\<open>if (!relMeta) return; // skip silently\<close>). \<open>hasClauses\<close> is the loop, and
  \<open>hasSqlOf\<close> the value returned. The recursion into the callback's own has-conditions
  is the call \<open>this.buildHasConditionsSQL(relatedTable, cb)\<close>.
\<close>

fun hasClause :: "classes \<Rightarrow> model \<Rightarrow> string \<Rightarrow> hascond \<Rightarrow> (string \<times> val list) option"
  and hasClauses :: "classes \<Rightarrow> model \<Rightarrow> string \<Rightarrow> hascond list \<Rightarrow> string list \<times> val list"
  and hasSqlOf :: "classes \<Rightarrow> model \<Rightarrow> string \<Rightarrow> hascond list \<Rightarrow> string \<times> val list"
where
  "hasClause cls m baseTable (HasCond rel opr cnt cb) =
     (case getRelationship m rel of
        None \<Rightarrow> None
      | Some relMeta \<Rightarrow>
          (let relatedModel = cls (rmodel relMeta);
               relatedTable = getTable relatedModel;
               relatedPK = orElse (primaryKey relatedModel) ''id'';
               parentPK = orElse (primaryKey m) ''id'';
               operator = optOr opr ''>='';
               n = (case cnt of None \<Rightarrow> 1 | Some k \<Rightarrow> k);
               qualifier = (if rtype relMeta = BelongsToMany then ''r'' else relatedTable);
               (constraintsSql, constraintParams) =
                 (case cb of
                    None \<Rightarrow> ([], [])
                  | Some (CbState w h it ot) \<Rightarrow>
                      (let wh = fst (buildWhereClause (cbBuilder relatedModel (Some qualifier) (CbState w h it ot)));
                           (nestedSql, nestedParams) = hasSqlOf cls relatedModel qualifier h
                       in ((if sql wh \<noteq> [] then whereToAnd (sql wh) else [])
                             @ (if nestedSql \<noteq> [] then '' '' @ nestedSql else []),
                           (if sql wh \<noteq> [] then params wh else [])
                             @ (if nestedSql \<noteq> [] then nestedParams else []))));
               softDeleteFragment = (if softDeletes relatedModel then '' AND deleted_at IS NULL'' else []);
               subquery =
                 (if isHasKind (rtype relMeta) then
                    ''SELECT COUNT(*) FROM '' @ relatedTable @ '' WHERE ''
                      @ optOr (foreignKey relMeta) (baseTable @ ''_id'') @ '' = '' @ baseTable @ ''.'' @ parentPK
                      @ softDeleteFragment @ constraintsSql
                  else if rtype relMeta = BelongsTo then
                    ''SELECT COUNT(*) FROM '' @ relatedTable @ '' WHERE '' @ relatedTable @ ''.''
                      @ optOr (ownerKey relMeta) relatedPK @ '' = '' @ baseTable @ ''.''
                      @ optOr (foreignKey relMeta) (rel @ ''_id'')
                      @ softDeleteFragment @ constraintsSql
                  else
                    ''SELECT COUNT(*) FROM '' @ optText (pivot relMeta) @ '' p JOIN '' @ relatedTable
                      @ '' r ON r.'' @ relatedPK @ '' = p.''
                      @ optOr (relatedKey relMeta) (relatedTable @ ''_id'')
                      @ '' WHERE p.'' @ optOr (foreignKey relMeta) (baseTable @ ''_id'')
                      @ '' = '' @ baseTable @ ''.'' @ parentPK
                      @ (if softDeletes relatedModel then '' AND r.deleted_at IS NULL'' else [])
                      @ constraintsSql)
           in Some (''(('' @ subquery @ '') '' @ operator @ '' ?)'', constraintParams @ [VNum n])))"
| "hasClauses cls m baseTable [] = ([], [])"
| "hasClauses cls m baseTable (c # cs) =
     (let (rest, restParams) = hasClauses cls m baseTable cs
      in case hasClause cls m baseTable c of
           None \<Rightarrow> (rest, restParams)
         | Some (clauseText, prm) \<Rightarrow> (clauseText # rest, prm @ restParams))"
| "hasSqlOf cls m baseTable conds =
     (let (clauses, prm) = hasClauses cls m baseTable conds
      in if clauses = [] then ([], []) else (join '' '' (map (\<lambda>c. ''AND '' @ c) clauses), prm))"

definition buildHasConditionsSQL :: "classes \<Rightarrow> builder \<Rightarrow> string \<Rightarrow> string \<times> val list" where
  "buildHasConditionsSQL cls b baseTable =
     (if hasConditions b = [] then ([], []) else hasSqlOf cls (bmodel b) baseTable (hasConditions b))"

subsection \<open>Document store: the post-fetch filter\<close>

text \<open>The \<open>switch (operator)\<close> comparing the related count with the threshold.\<close>

definition countSatisfies :: "string \<Rightarrow> int \<Rightarrow> int \<Rightarrow> bool" where
  "countSatisfies operator actual expected =
     (if operator = ''>'' then actual > expected
      else if operator = ''>='' then actual \<ge> expected
      else if operator = ''<'' then actual < expected
      else if operator = ''<='' then actual \<le> expected
      else if operator = ''='' \<or> operator = ''=='' then actual = expected
      else if operator = ''!='' \<or> operator = ''<>'' then actual \<noteq> expected
      else actual \<ge> expected)"

text \<open>
  The inner loop of \<open>applyHasConditionsMongo\<close> over the conditions, for one document:
  the final value of \<open>allOk\<close>. \<open>countRelated relMeta cond doc\<close> stands for the number
  \<open>actual\<close> that the three relation-kind branches obtain from the store
  (\<open>countDocuments\<close>, or \<open>find\<close> followed by the nested has-filter).
\<close>

fun allOk :: "model \<Rightarrow> (relconfig \<Rightarrow> hascond \<Rightarrow> obj \<Rightarrow> int) \<Rightarrow> obj \<Rightarrow> hascond list \<Rightarrow> bool" where
  "allOk m countRelated doc [] = True"
| "allOk m countRelated doc (cond # conds) =
     (case getRelationship m (relation cond) of
        None \<Rightarrow> False
      | Some relMeta \<Rightarrow>
          (let operator = optOr (hoperator cond) ''>='';
               expected = (case hcount cond of None \<Rightarrow> 1 | Some k \<Rightarrow> k);
               actual = countRelated relMeta cond doc
           in if \<not> countSatisfies operator actual expected then False
              else allOk m countRelated doc conds))"

definition applyHasConditionsMongo ::
  "builder \<Rightarrow> (relconfig \<Rightarrow> hascond \<Rightarrow> obj \<Rightarrow> int) \<Rightarrow> obj list \<Rightarrow> obj list" where
  "applyHasConditionsMongo b countRelated docs =
     (if hasConditions b = [] \<or> docs = [] then docs
      else filter (\<lambda>doc. allOk (bmodel b) countRelated doc (hasConditions b)) docs)"

subsection \<open>Example classes\<close>

definition exampleBook :: model where
  "exampleBook = \<lparr>className = ''Book'', table = ''books'', primaryKey = ''id'', fillable = [],
     guarded = [], hidden = [], appends = [], casts = [], accessors = [], derivedTable = ''books'',
     timestamps = False, softDeletes = False, autoIncrement = True, relationships = [],
     relationMethods = []\<rparr>"

definition booksRelation :: relconfig where
  "booksRelation = \<lparr>rtype = HasMany, rmodel = ''Book'', foreignKey = Some ''author_id'',
     localKey = None, ownerKey = None, relatedKey = None, morphName = None, morphType = None,
     pivot = None, rserialization = None\<rparr>"

definition exampleAuthor :: model where
  "exampleAuthor = \<lparr>className = ''Author'', table = ''authors'', primaryKey = ''id'', fillable = [],
     guarded = [], hidden = [], appends = [], casts = [], accessors = [], derivedTable = ''authors'',
     timestamps = False, softDeletes = False, autoIncrement = True,
     relationships = [(''books'', booksRelation)], relationMethods = []\<rparr>"

definition exampleClasses :: classes where
  "exampleClasses name = (if name = ''Book'' then exampleBook else exampleAuthor)"

section \<open>Relationship loaders (SQL backend)\<close>

text \<open>
  Model instances live in a heap and are referred to by address; \<open>VRef r\<close> is the
  instance at address \<open>r\<close>. The loaders receive the addresses of the parent entities.
\<close>

type_synonym heap = "entity list"




definition setLoadedRelation :: "string \<Rightarrow> val \<Rightarrow> entity \<Rightarrow> entity" where
  "setLoadedRelation name v e = e\<lparr>relationshipsLoaded := setProp name v (relationshipsLoaded e)\<rparr>"



























section \<open>The serializer (Model.toJSON)\<close>

text \<open>The plain nested value \<open>toJSON\<close> produces.\<close>

datatype json = JRaw val | JArr "json list" | JObj "(string \<times> json) list"

definition circularMarker :: json where "circularMarker = JRaw (VStr ''[Circular]'')"
definition maxDepthMarker :: json where "maxDepthMarker = JRaw (VStr ''[Max Depth Reached]'')"

text \<open>The inclusion tree (\<open>relationTree\<close>): relation names with their subtrees.\<close>

datatype tree = Tree "(string \<times> tree) list"

fun children :: "tree \<Rightarrow> (string \<times> tree) list" where
  "children (Tree cs) = cs"

text \<open>
  \<open>ToJSONOptions\<close> with the defaults of the destructuring applied (\<open>included\<close> and
  \<open>excluded\<close> are the fields \<open>include\<close> and \<open>exclude\<close>); the visited-set is passed next
  to it.
\<close>

record options =
  maxDepth :: int
  currentDepth :: int
  included :: "string list"
  excluded :: "string list"
  withRelations :: bool
  includeMetadata :: bool
  relationTree :: tree
  withAccessors :: bool
  onlyAppended :: bool

definition defaultOptions :: options where
  "defaultOptions = \<lparr>maxDepth = 10, currentDepth = 0, included = [], excluded = [], withRelations = True,
     includeMetadata = False, relationTree = Tree [], withAccessors = True, onlyAppended = False\<rparr>"

text \<open>\<open>path.split('.')\<close>.\<close>

fun splitDots :: "string \<Rightarrow> string list" where
  "splitDots [] = [[]]"
| "splitDots (c # cs) =
     (if c = CHR ''.'' then [] # splitDots cs
      else (case splitDots cs of w # ws \<Rightarrow> (c # w) # ws | [] \<Rightarrow> [[c]]))"

text \<open>The walk \<open>cursor[seg] = cursor[seg] || {}\<close> along the segments of a dotted path.\<close>

fun ensurePath :: "string list \<Rightarrow> tree \<Rightarrow> tree" where
  "ensurePath [] t = t"
| "ensurePath (seg # segs) (Tree cs) =
     Tree (setProp seg (ensurePath segs (case map_of cs seg of Some sub \<Rightarrow> sub | None \<Rightarrow> Tree [])) cs)"

definition addUnique :: "string \<Rightarrow> string list \<Rightarrow> string list" where
  "addUnique x xs = (if x \<in> set xs then xs else xs @ [x])"

text \<open>\<open>getAllRelationships\<close>: the static table, then the relation methods not in it.\<close>

definition getAllRelationships :: "model \<Rightarrow> (string \<times> relconfig) list" where
  "getAllRelationships m =
     relationships m
     @ concat (map (\<lambda>(name, r). case r of
                                   Some c \<Rightarrow> if name \<in> set (map fst (relationships m)) then [] else [(name, c)]
                                 | None \<Rightarrow> [])
                 (relationMethods m))"

text \<open>
  The \<open>include.forEach\<close> of \<open>toJSON\<close>: the computed tree, the direct relations and the
  attribute names that \<open>include\<close> asks for.
\<close>

fun scanInclude :: "string list \<Rightarrow> string list \<Rightarrow> tree \<times> string list \<times> string list
     \<Rightarrow> tree \<times> string list \<times> string list" where
  "scanInclude knownRelations [] acc = acc"
| "scanInclude knownRelations (path # paths) (computedTree, directRelations, includeAttr) =
     (if path = [] then scanInclude knownRelations paths (computedTree, directRelations, includeAttr)
      else if CHR ''.'' \<in> set path then
        scanInclude knownRelations paths
          (ensurePath (splitDots path) computedTree, addUnique (hd (splitDots path)) directRelations, includeAttr)
      else if path \<in> set knownRelations then
        scanInclude knownRelations paths (computedTree, addUnique path directRelations, includeAttr)
      else scanInclude knownRelations paths (computedTree, directRelations, includeAttr @ [path]))"

text \<open>\<open>attributesToArray\<close>: the attributes without the hidden fields.\<close>

definition attributesToArray :: "entity \<Rightarrow> obj" where
  "attributesToArray e = filter (\<lambda>(k, v). k \<notin> set (hidden (emodel e))) (attributes e)"

text \<open>
  Reading an attribute during serialization. \<open>getAttribute\<close> also fills the accessor
  cache of the entity; the cache never changes what a later read returns, so the
  serializer is written over the heap as it is.
\<close>

definition readAttribute :: "entity \<Rightarrow> string \<Rightarrow> val" where
  "readAttribute e key = fst (getAttribute key False e)"

text \<open>\<open>getAppendedAttributes\<close>.\<close>

definition getAppendedAttributes :: "entity \<Rightarrow> obj" where
  "getAppendedAttributes e =
     foldl (\<lambda>acc key. if readAttribute e key \<noteq> VUndefined then setProp key (readAttribute e key) acc else acc)
       [] (appends (emodel e))"

text \<open>\<open>obj[key] !== undefined\<close> on the object under construction.\<close>

definition isSet :: "(string \<times> json) list \<Rightarrow> string \<Rightarrow> bool" where
  "isSet ob key = (case map_of ob key of None \<Rightarrow> False | Some j \<Rightarrow> j \<noteq> JRaw VUndefined)"

text \<open>The own attributes and the appended fields: steps before the relations.\<close>

definition ownFields :: "entity \<Rightarrow> options \<Rightarrow> string list \<Rightarrow> string list \<Rightarrow> (string \<times> json) list" where
  "ownFields e opts includeAttr directRelations =
     (let kept = filter (\<lambda>(k, v). (includeAttr = [] \<or> k \<in> set includeAttr) \<and> k \<notin> set (excluded opts))
                   (attributesToArray e);
          ob = foldl (\<lambda>acc (k, v). setProp k (JRaw v) acc) [] kept
      in if withAccessors opts
         then foldl (\<lambda>acc key.
                 if key \<in> set (excluded opts) then acc
                 else if includeAttr \<noteq> [] \<and> key \<notin> set includeAttr \<and> key \<notin> set directRelations then acc
                 else setProp key (JRaw (readAttribute e key)) acc)
               ob (appends (emodel e))
         else ob)"

text \<open>
  The closing \<open>Object.keys(allRelations).forEach\<close>: placeholders for declared relations
  that have no value in the object yet.
\<close>

definition isToOne :: "reltype \<Rightarrow> bool" where
  "isToOne t = (t = HasOne \<or> t = BelongsTo \<or> t = MorphOne)"

text \<open>
  The inclusion filter of that loop: when \<open>include\<close> or the tree names relations, only
  the named ones pass (\<open>const allowed = directRelations.has(relName) ||
  computedTree[relName] !== undefined\<close>).
\<close>

definition allowed :: "tree \<Rightarrow> string list \<Rightarrow> string \<Rightarrow> bool" where
  "allowed computedTree directRelations relName =
     (if directRelations \<noteq> [] \<or> children computedTree \<noteq> []
      then relName \<in> set directRelations \<or> relName \<in> set (map fst (children computedTree))
      else True)"

definition emptyShape :: "relconfig \<Rightarrow> json" where
  "emptyShape cfg = (if isToOne (rtype cfg) then JRaw VNull else JArr [])"

definition placeholders :: "entity \<Rightarrow> options \<Rightarrow> tree \<Rightarrow> string list \<Rightarrow> (string \<times> json) list
     \<Rightarrow> (string \<times> json) list" where
  "placeholders e opts computedTree directRelations ob0 =
     foldl (\<lambda>ob (relName, cfg).
              if isSet ob relName then ob
              else if \<not> allowed computedTree directRelations relName then ob
              else if excluded opts \<noteq> [] \<and> relName \<in> set (excluded opts) then ob
              else setProp relName (emptyShape cfg) ob)
       ob0 (getAllRelationships (emodel e))"

text \<open>\<open>addMetadata\<close>.\<close>

definition addMetadata :: "entity \<Rightarrow> (string \<times> json) list \<Rightarrow> (string \<times> json) list" where
  "addMetadata e ob =
     setProp ''$metadata''
       (JObj [(''model'', JRaw (VStr (className (emodel e)))),
              (''table'', JRaw (VStr (getTable (emodel e)))),
              (''primaryKey'', JRaw (VStr (primaryKey (emodel e)))),
              (''timestamps'', JRaw (VBool (timestamps (emodel e)))),
              (''softDeletes'', JRaw (VBool (softDeletes (emodel e)))),
              (''loadedRelations'', JArr (map (\<lambda>(k, v). JRaw (VStr k)) (relationshipsLoaded e))),
              (''isDirty'', JRaw (VBool (isDirty e))),
              (''exists'', JRaw (VBool (readAttribute e (primaryKey (emodel e)) \<noteq> VUndefined)))])
       ob"

text \<open>
  \<open>getRelationSerializationOptions\<close> followed by the three assignments every call site
  makes (\<open>relationTree\<close>, \<open>include\<close>, \<open>currentDepth\<close>): the options a related entity is
  serialized with. \<open>opts\<close> are the options \<open>serializeRelationships\<close> received.
\<close>

definition relationOptions :: "entity \<Rightarrow> string \<Rightarrow> options \<Rightarrow> options" where
  "relationOptions e rel opts =
     (let ser = (case getRelationship (emodel e) rel of Some c \<Rightarrow> rserialization c | None \<Rightarrow> None);
          nestedTree = (case map_of (children (relationTree opts)) rel of Some t \<Rightarrow> t | None \<Rightarrow> Tree [])
      in \<lparr>maxDepth = (case ser of Some sr \<Rightarrow> (case ser_maxDepth sr of Some d \<Rightarrow> d | None \<Rightarrow> maxDepth opts)
                               | None \<Rightarrow> maxDepth opts),
          currentDepth = currentDepth opts + 1,
          included = map fst (children nestedTree),
          excluded = (case ser of Some sr \<Rightarrow> (case ser_exclude sr of Some x \<Rightarrow> x | None \<Rightarrow> [])
                               | None \<Rightarrow> []),
          withRelations = (case ser of Some sr \<Rightarrow> (case ser_withRelations sr of Some w \<Rightarrow> w
                                                                                | None \<Rightarrow> withRelations opts)
                                     | None \<Rightarrow> withRelations opts),
          includeMetadata = includeMetadata opts,
          relationTree = nestedTree,
          withAccessors = True,
          onlyAppended = False\<rparr>)"

text \<open>Whether \<open>serializeRelationships\<close> skips a loaded relation.\<close>

definition skipsRelation :: "options \<Rightarrow> string \<Rightarrow> bool" where
  "skipsRelation opts rel =
     (rel \<in> set (excluded opts)
      \<or> ((included opts \<noteq> [] \<or> children (relationTree opts) \<noteq> [])
          \<and> rel \<notin> set (included opts) \<and> rel \<notin> set (map fst (children (relationTree opts)))))"

text \<open>
  The part of \<open>toJSON\<close> between the depth check and the relations: the computed tree,
  the direct relations and the object holding the own and appended fields.
\<close>

definition prepare :: "entity \<Rightarrow> options \<Rightarrow> tree \<times> string list \<times> (string \<times> json) list" where
  "prepare e opts =
     (let knownRelations = map fst (relationshipsLoaded e) @ map fst (getAllRelationships (emodel e));
          (computedTree, directRelations, includeAttr) =
             scanInclude knownRelations (included opts) (Tree (children (relationTree opts)), [], [])
      in (computedTree, directRelations, ownFields e opts includeAttr directRelations))"

text \<open>
  The options object \<open>toJSON\<close> hands to \<open>serializeRelationships\<close>; it has no
  \<open>includeMetadata\<close>, so related entities get none.
\<close>

definition loadedOptions :: "options \<Rightarrow> tree \<Rightarrow> string list \<Rightarrow> options" where
  "loadedOptions opts computedTree directRelations =
     opts\<lparr>currentDepth := currentDepth opts + 1, included := directRelations, includeMetadata := False,
          relationTree := computedTree, onlyAppended := False\<rparr>"

text \<open>The part of \<open>toJSON\<close> after the relations: placeholders and metadata.\<close>

definition finish :: "entity \<Rightarrow> options \<Rightarrow> tree \<Rightarrow> string list \<Rightarrow> (string \<times> json) list \<Rightarrow> json" where
  "finish e opts computedTree directRelations ob =
     (let ob1 = (if withRelations opts then placeholders e opts computedTree directRelations ob else ob)
      in JObj (if includeMetadata opts then addMetadata e ob1 else ob1))"

text \<open>The \<open>onlyAppended\<close> result.\<close>

definition appendedOnly :: "entity \<Rightarrow> options \<Rightarrow> json" where
  "appendedOnly e opts =
     JObj (map (\<lambda>(k, v). (k, JRaw v)) (filter (\<lambda>(k, v). k \<notin> set (excluded opts)) (getAppendedAttributes e)))"

text \<open>
  \<open>toJSON\<close> with its helpers. The first argument of \<open>toJSON\<close> bounds the nesting of
  \<open>toJSON\<close> calls; \<open>None\<close> means the bound was too small. Every function takes the
  visited-set and returns it as the call leaves it. In the helpers, \<open>child\<close> is the call
  \<open>v.toJSON(relationOptions)\<close> on a related entity.

  \<open>serializeValue\<close> is the \<open>map\<close> callback and the to-one branch of
  \<open>serializeRelationships\<close> for one related value, \<open>serializeArray\<close> the \<open>map\<close> over an
  array (with the \<open>filter\<close> that drops \<open>undefined\<close>), and \<open>serializeLoaded\<close> the
  \<open>forEach\<close> over the loaded relations.
\<close>

type_synonym serializer = "options \<Rightarrow> ref \<Rightarrow> ref list \<Rightarrow> (json \<times> ref list) option"

fun serializeValue :: "serializer \<Rightarrow> heap \<Rightarrow> options \<Rightarrow> val \<Rightarrow> ref list \<Rightarrow> (json \<times> ref list) option" where
  "serializeValue child h ropts (VRef x) visited =
     (if x < length h then child ropts x visited else Some (JRaw (VRef x), visited))"
| "serializeValue child h ropts (VDate t) visited = Some (JRaw (VStr (jsString (VDate t))), visited)"
| "serializeValue child h ropts (VObjectId x) visited = Some (JRaw (VStr x), visited)"
| "serializeValue child h ropts v visited = Some (JRaw v, visited)"

fun serializeArray :: "serializer \<Rightarrow> heap \<Rightarrow> options \<Rightarrow> val list \<Rightarrow> ref list \<Rightarrow> (json list \<times> ref list) option" where
  "serializeArray child h ropts [] visited = Some ([], visited)"
| "serializeArray child h ropts (v # vs) visited =
     (case serializeValue child h ropts v visited of
        None \<Rightarrow> None
      | Some (j, visited1) \<Rightarrow>
          map_option (\<lambda>(js, visited2). ((if j = JRaw VUndefined then js else j # js), visited2))
            (serializeArray child h ropts vs visited1))"

fun serializeLoaded :: "serializer \<Rightarrow> heap \<Rightarrow> entity \<Rightarrow> options \<Rightarrow> obj \<Rightarrow> (string \<times> json) list \<Rightarrow> ref list
        \<Rightarrow> ((string \<times> json) list \<times> ref list) option" where
  "serializeLoaded child h e opts [] ob visited = Some (ob, visited)"
| "serializeLoaded child h e opts ((rel, v) # rest) ob visited =
     (if skipsRelation opts rel then serializeLoaded child h e opts rest ob visited
      else if isArray v then
        (case serializeArray child h (relationOptions e rel opts) (elems v) visited of
           None \<Rightarrow> None
         | Some (js, visited1) \<Rightarrow> serializeLoaded child h e opts rest (setProp rel (JArr js) ob) visited1)
      else if isNullish v then serializeLoaded child h e opts rest ob visited
      else
        (case serializeValue child h (relationOptions e rel opts) v visited of
           None \<Rightarrow> None
         | Some (j, visited1) \<Rightarrow> serializeLoaded child h e opts rest (setProp rel j ob) visited1))"

text \<open>
  The body of \<open>toJSON\<close> for the entity at address \<open>r\<close>; an address outside the heap is
  no entity and gives \<open>None\<close>.
\<close>

definition toJSONBody :: "serializer \<Rightarrow> heap \<Rightarrow> options \<Rightarrow> ref \<Rightarrow> ref list \<Rightarrow> (json \<times> ref list) option" where
  "toJSONBody child h opts r visited =
     (if length h \<le> r then None
      else if r \<in> set visited then Some (circularMarker, visited)
      else if currentDepth opts \<ge> maxDepth opts then Some (maxDepthMarker, r # visited)
      else if onlyAppended opts then Some (appendedOnly (h ! r) opts, r # visited)
      else
        (let e = h ! r; (computedTree, directRelations, ob0) = prepare e opts
         in if withRelations opts \<and> relationshipsLoaded e \<noteq> []
            then map_option (\<lambda>(ob, visited'). (finish e opts computedTree directRelations ob, visited'))
                   (serializeLoaded child h e (loadedOptions opts computedTree directRelations)
                      (relationshipsLoaded e) ob0 (r # visited))
            else Some (finish e opts computedTree directRelations ob0, r # visited)))"

fun toJSON :: "nat \<Rightarrow> heap \<Rightarrow> options \<Rightarrow> ref \<Rightarrow> ref list \<Rightarrow> (json \<times> ref list) option" where
  "toJSON 0 h opts r visited = None"
| "toJSON (Suc n) h opts r visited = toJSONBody (toJSON n h) h opts r visited"

subsection \<open>Example graphs\<close>

text \<open>
  A type with a to-one relation to itself, and two entities of it that reference each
  other, both relations loaded: \<open>A.related = B\<close> and \<open>B.related = A\<close>, with \<open>A\<close> at
  address 0 and \<open>B\<close> at address 1.
\<close>

definition relatedRelation :: relconfig where
  "relatedRelation = \<lparr>rtype = BelongsTo, rmodel = ''Node'', foreignKey = Some ''related_id'',
     localKey = None, ownerKey = None, relatedKey = None, morphName = None, morphType = None,
     pivot = None, rserialization = None\<rparr>"

definition exampleNode :: model where
  "exampleNode = \<lparr>className = ''Node'', table = ''nodes'', primaryKey = ''id'', fillable = [],
     guarded = [], hidden = [], appends = [], casts = [], accessors = [], derivedTable = ''nodes'',
     timestamps = False, softDeletes = False, autoIncrement = True,
     relationships = [(''related'', relatedRelation)], relationMethods = []\<rparr>"

definition node :: "int \<Rightarrow> obj \<Rightarrow> entity" where
  "node i loaded = \<lparr>emodel = exampleNode, attributes = [(''id'', VNum i)], original = [(''id'', VNum i)],
     relationshipsLoaded = loaded, exists = True, attributeCache = []\<rparr>"

definition cyclePair :: heap where
  "cyclePair = [node 1 [(''related'', VRef 1)], node 2 [(''related'', VRef 0)]]"

text \<open>A type declaring a to-many and a to-one relation, and an entity with neither loaded.\<close>

definition profileRelation :: relconfig where
  "profileRelation = \<lparr>rtype = HasOne, rmodel = ''Profile'', foreignKey = Some ''member_id'',
     localKey = None, ownerKey = None, relatedKey = None, morphName = None, morphType = None,
     pivot = None, rserialization = None\<rparr>"

definition postsRelation :: relconfig where
  "postsRelation = \<lparr>rtype = HasMany, rmodel = ''Post'', foreignKey = Some ''member_id'',
     localKey = None, ownerKey = None, relatedKey = None, morphName = None, morphType = None,
     pivot = None, rserialization = None\<rparr>"

definition exampleMember :: model where
  "exampleMember = \<lparr>className = ''Member'', table = ''members'', primaryKey = ''id'', fillable = [],
     guarded = [], hidden = [], appends = [], casts = [], accessors = [], derivedTable = ''members'',
     timestamps = False, softDeletes = False, autoIncrement = True,
     relationships = [(''posts'', postsRelation), (''profile'', profileRelation)], relationMethods = []\<rparr>"

definition member :: "obj \<Rightarrow> entity" where
  "member loaded = \<lparr>emodel = exampleMember, attributes = [(''id'', VNum 7)], original = [(''id'', VNum 7)],
     relationshipsLoaded = loaded, exists = True, attributeCache = []\<rparr>"

section \<open>What the stores select\<close>

text \<open>
  The two stores are outside the repository: the engine only sends them a statement
  with its parameters, or a filter document. To say which rows a fetch returns, the
  meaning of the boolean structure of the compiled forms and of their null tests is
  written down here as the stores define it. What a store answers for any other leaf
  (a comparison, a membership test, a range) is a parameter: \<open>leaf\<close> for the relational
  store, from the column reference, the operator text, the bound parameters and the row;
  \<open>mleaf\<close> for the document store, from the leaf document and the document.
\<close>

subsection \<open>The relational store\<close>

text \<open>Three-valued logic: \<open>Some True\<close>, \<open>Some False\<close> and \<open>None\<close> for UNKNOWN.\<close>

type_synonym truth = "bool option"

fun and3 :: "truth \<Rightarrow> truth \<Rightarrow> truth" where
  "and3 (Some False) _ = Some False"
| "and3 _ (Some False) = Some False"
| "and3 (Some True) (Some True) = Some True"
| "and3 _ _ = None"

fun or3 :: "truth \<Rightarrow> truth \<Rightarrow> truth" where
  "or3 (Some True) _ = Some True"
| "or3 _ (Some True) = Some True"
| "or3 (Some False) (Some False) = Some False"
| "or3 _ _ = None"

text \<open>
  A row is an object from column names to values, \<open>null\<close> for NULL. A column reference
  \<open>table.column\<close> reads the column.
\<close>

definition unqualified :: "string \<Rightarrow> string" where
  "unqualified col = rev (takeWhile (\<lambda>c. c \<noteq> CHR ''.'') (rev col))"

definition cell :: "obj \<Rightarrow> string \<Rightarrow> val" where
  "cell row col = getProp row (unqualified col)"

text \<open>The number of \<open>?\<close> placeholders of a part, and its connective.\<close>

fun arity :: "sqlpart \<Rightarrow> nat" where
  "arity (PNested boolOp ps) = sum_list (map arity ps)"
| "arity (PIn boolOp col kw n) = n"
| "arity (PBetween boolOp col kw) = 2"
| "arity (PNull boolOp col sqlOp) = 0"
| "arity (PCmp boolOp col opr) = 1"

fun boolOp :: "sqlpart \<Rightarrow> string" where
  "boolOp (PNested b ps) = b"
| "boolOp (PIn b col kw n) = b"
| "boolOp (PBetween b col kw) = b"
| "boolOp (PNull b col sqlOp) = b"
| "boolOp (PCmp b col opr) = b"

text \<open>
  \<open>t1 op2 t2 op3 t3 ...\<close> with \<open>AND\<close> binding tighter than \<open>OR\<close>; the first argument of
  \<open>orOfAnds\<close> is the conjunction read so far.
\<close>

fun orOfAnds :: "truth \<Rightarrow> (string \<times> truth) list \<Rightarrow> truth" where
  "orOfAnds cur [] = cur"
| "orOfAnds cur ((opr, t) # rest) =
     (if opr = ''OR '' then or3 cur (orOfAnds t rest) else orOfAnds (and3 cur t) rest)"

fun whereTruth :: "(string \<times> truth) list \<Rightarrow> truth" where
  "whereTruth [] = Some True"
| "whereTruth ((opr, t) # rest) = orOfAnds t rest"

text \<open>
  The truth value of a part at a row, given the parameters bound to its placeholders,
  and of a list of parts, each taking its parameters from the front of the list.
\<close>

type_synonym sqlleaf = "string \<Rightarrow> string \<Rightarrow> val list \<Rightarrow> obj \<Rightarrow> truth"

fun sqlPart :: "sqlleaf \<Rightarrow> obj \<Rightarrow> sqlpart \<Rightarrow> val list \<Rightarrow> truth"
  and sqlParts :: "sqlleaf \<Rightarrow> obj \<Rightarrow> sqlpart list \<Rightarrow> val list \<Rightarrow> (string \<times> truth) list"
where
  "sqlPart leaf row (PNested b ps) prm = whereTruth (sqlParts leaf row ps prm)"
| "sqlPart leaf row (PNull b col sqlOp) prm =
     (if sqlOp = ''IS'' then Some (isNullish (cell row col))
      else if sqlOp = ''IS NOT'' then Some (\<not> isNullish (cell row col))
      else leaf col sqlOp [VNull] row)"
| "sqlPart leaf row (PIn b col kw n) prm = leaf col kw prm row"
| "sqlPart leaf row (PBetween b col kw) prm = leaf col kw prm row"
| "sqlPart leaf row (PCmp b col opr) prm = leaf col opr prm row"
| "sqlParts leaf row [] prm = []"
| "sqlParts leaf row (p # ps) prm =
     (boolOp p, sqlPart leaf row p (take (arity p) prm)) # sqlParts leaf row ps (drop (arity p) prm)"

text \<open>
  \<open>executeQuery\<close> compiles the clause list with the table name as column qualifier and
  appends the text to \<open>SELECT ... FROM table\<close>. With no join, has-condition, grouping or
  limit on the builder, the statement returns the rows at which the clause is true (all
  rows when there is no clause).
\<close>

definition executeQueryWhere :: "builder \<Rightarrow> compiled" where
  "executeQueryWhere b = fst (buildWhereClause (b\<lparr>columnQualifier := Some (getTable (bmodel b))\<rparr>))"

definition selectedSql :: "sqlleaf \<Rightarrow> builder \<Rightarrow> obj \<Rightarrow> bool" where
  "selectedSql leaf b row =
     (whereTruth (sqlParts leaf row (parts (executeQueryWhere b)) (params (executeQueryWhere b)))
        = Some True)"

subsection \<open>The document store\<close>

text \<open>
  \<open>{}\<close> matches every document, \<open>{field: null}\<close> the documents where the field is
  \<open>null\<close> or missing, \<open>{field: {$ne: null}}\<close> the others; \<open>$and\<close> and \<open>$or\<close> are
  conjunction and disjunction.
\<close>

fun matches :: "(mfilter \<Rightarrow> obj \<Rightarrow> bool) \<Rightarrow> obj \<Rightarrow> mfilter \<Rightarrow> bool" where
  "matches mleaf doc MEmptyDoc = True"
| "matches mleaf doc (MEq field v) =
     (if v = VNull then isNullish (getProp doc field) else mleaf (MEq field v) doc)"
| "matches mleaf doc (MOps field ops) =
     (if ops = [(''$ne'', VNull)] then \<not> isNullish (getProp doc field) else mleaf (MOps field ops) doc)"
| "matches mleaf doc (MAnd fs) = list_all (matches mleaf doc) fs"
| "matches mleaf doc (MOr fs) = list_ex (matches mleaf doc) fs"

text \<open>\<open>executeQueryMongo\<close> passes the compiled filter to \<open>find\<close>.\<close>

definition selectedMongo :: "(mfilter \<Rightarrow> obj \<Rightarrow> bool) \<Rightarrow> builder \<Rightarrow> obj \<Rightarrow> bool" where
  "selectedMongo mleaf b doc = matches mleaf doc (fst (buildMongoFilter b))"

text \<open>
  A predicate clause as the predicate methods push it: not a group, and not the
  operator \<open>nested\<close> on an array.
\<close>

fun isPredicate :: "clause \<Rightarrow> bool" where
  "isPredicate (Cond col opr v b) = (\<not> (toLowerCase (orElse opr ''='') = ''nested'' \<and> isArray v))"
| "isPredicate (Group cs b) = False"

text \<open>
  Soft deletion: \<open>delete()\<close> on an entity of a soft-deletable type sends
  \<open>UPDATE table SET deleted_at = ? WHERE pk = ?\<close> with the current date, or
  \<open>updateOne(..., {$set: {deleted_at: new Date()}})\<close>; the stored row then is:
\<close>

definition softDeleted :: "int \<Rightarrow> obj \<Rightarrow> obj" where
  "softDeleted now row = setProp ''deleted_at'' (VDate now) row"

section \<open>Verified properties\<close>

subsection \<open>Pagination\<close>





lemma paginate_page_sizes:
  "map (\<lambda>p. length (data (fst (paginate [0..<47::nat] 47 fresh_window (Finite 10) (Finite (of_nat p))))))
     [1, 2, 3, 4, 5, 6] = [10, 10, 10, 10, 7, 0]"
  by (simp add: paginate_def Let_def limit_def offset_def executeQuery_def fresh_window_def)

subsection \<open>Soft-delete injection\<close>

lemma column_toFilter: "column (snd (toFilter m w)) = column w"
  by (cases w) (auto simp: Let_def)

lemma inject_settled: "settled b \<Longrightarrow> injectSoftDelete b = b"
  by (auto simp: settled_def injectSoftDelete_def hasDeletedAtClause_def)

lemma terminal_settled_columns:
  assumes "settled b"
  shows "map column (whereClauses (runTerminal t b)) = map column (whereClauses b)"
    and "settled (runTerminal t b)"
    and "appliedSoftDeleteFilter (runTerminal t b) = appliedSoftDeleteFilter b"
  using assms inject_settled[OF assms]
  by (cases t; auto simp: buildWhereClause_def buildMongoFilter_def Let_def settled_def
       hasDeletedAtClause_def list_ex_iff column_toFilter o_def split: prod.splits)+

lemma terminals_settled_columns:
  "settled b \<Longrightarrow> map column (whereClauses (runTerminals ts b)) = map column (whereClauses b)"
  by (induction ts arbitrary: b) (auto simp: terminal_settled_columns)

lemma terminal_first:
  assumes "softDeletes (bmodel b)" "\<not> includeTrashed b" "\<not> onlyTrashedFlag b"
    "\<not> appliedSoftDeleteFilter b" "\<not> hasDeletedAtClause b"
  shows "map column (whereClauses (runTerminal t b)) = map column (whereClauses b) @ [''deleted_at'']"
    and "last (whereClauses (runTerminal t b)) = softDeleteClause"
    and "appliedSoftDeleteFilter (runTerminal t b)"
  using assms
  by (cases t; auto simp: buildWhereClause_def buildMongoFilter_def Let_def injectSoftDelete_def
       hasDeletedAtClause_def list_ex_iff column_toFilter o_def softDeleteClause_def last_map
       split: prod.splits)+

lemma terminals_settled_last:
  "settled b \<Longrightarrow> whereClauses b \<noteq> [] \<Longrightarrow> last (whereClauses b) = softDeleteClause \<Longrightarrow>
   last (whereClauses (runTerminals ts b)) = softDeleteClause"
proof (induction ts arbitrary: b)
  case Nil
  then show ?case by simp
next
  case (Cons t ts)
  have keep: "last (whereClauses (runTerminal t b)) = softDeleteClause"
    using Cons.prems inject_settled[OF Cons.prems(1)]
    by (cases t) (auto simp: buildWhereClause_def buildMongoFilter_def Let_def last_map
        softDeleteClause_def split: prod.splits)
  have ne: "whereClauses (runTerminal t b) \<noteq> []"
    using terminal_settled_columns(1)[OF Cons.prems(1), of t] Cons.prems(2) by auto
  show ?case
    using Cons.IH[OF terminal_settled_columns(2)[OF Cons.prems(1)] ne keep] by simp
qed

text \<open>
  C5, as the code has it. Take a builder over a soft-deletable entity type that is in
  neither \<open>withTrashed\<close> nor \<open>onlyTrashed\<close> mode and has compiled nothing yet, and run
  any non-empty sequence of terminal operations (clause compilations, on either backend)
  on it. If the builder's clause list holds no clause on the column \<open>deleted_at\<close>, the
  automatic "not deleted" clause is appended exactly once: the columns of the clause
  list are those before followed by one \<open>deleted_at\<close>, and the last clause is the
  automatic one. If it already holds a clause on \<open>deleted_at\<close>, the guard of the
  compilers skips the injection and nothing is appended. In no case is it appended twice.
\<close>

theorem soft_delete_injected_at_most_once:
  assumes "softDeletes (bmodel b)" and "\<not> includeTrashed b" and "\<not> onlyTrashedFlag b"
    and "\<not> appliedSoftDeleteFilter b" and "ts \<noteq> []"
  shows "(\<not> hasDeletedAtClause b \<longrightarrow>
            map column (whereClauses (runTerminals ts b)) = map column (whereClauses b) @ [''deleted_at'']
          \<and> length (whereClauses (runTerminals ts b)) = length (whereClauses b) + 1
          \<and> last (whereClauses (runTerminals ts b)) = softDeleteClause)
       \<and> (hasDeletedAtClause b \<longrightarrow>
            map column (whereClauses (runTerminals ts b)) = map column (whereClauses b)
          \<and> length (whereClauses (runTerminals ts b)) = length (whereClauses b))"
proof (intro conjI impI)
  obtain t rest where ts: "ts = t # rest" using assms(5) by (cases ts) auto
  {
    assume no: "\<not> hasDeletedAtClause b"
    let ?b1 = "runTerminal t b"
    note first = terminal_first[OF assms(1-4) no, of t]
    have s1: "settled ?b1" using first(3) by (simp add: settled_def)
    have ne: "whereClauses ?b1 \<noteq> []" using first(1) by auto
    show cols: "map column (whereClauses (runTerminals ts b)) = map column (whereClauses b) @ [''deleted_at'']"
      using terminals_settled_columns[OF s1, of rest] first(1) by (simp add: ts)
    show "length (whereClauses (runTerminals ts b)) = length (whereClauses b) + 1"
      using arg_cong[OF cols, of length] by simp
    show "last (whereClauses (runTerminals ts b)) = softDeleteClause"
      using terminals_settled_last[OF s1 ne first(2), of rest] by (simp add: ts)
  }
  {
    assume has: "hasDeletedAtClause b"
    then have s: "settled b" by (simp add: settled_def)
    show cols: "map column (whereClauses (runTerminals ts b)) = map column (whereClauses b)"
      using terminals_settled_columns[OF s] .
    show "length (whereClauses (runTerminals ts b)) = length (whereClauses b)"
      using arg_cong[OF cols, of length] by simp
  }
qed

text \<open>
  Three compilations in a row on \<open>User.where('name', 'ann')\<close>: the clause list ends up
  with one automatic clause.
\<close>

theorem soft_delete_injected_at_most_once_witness:
  "softDeletes (bmodel (whereEq ''name'' (VStr ''ann'') (newBuilder exampleUser)))
   \<and> \<not> includeTrashed (whereEq ''name'' (VStr ''ann'') (newBuilder exampleUser))
   \<and> \<not> onlyTrashedFlag (whereEq ''name'' (VStr ''ann'') (newBuilder exampleUser))
   \<and> \<not> appliedSoftDeleteFilter (whereEq ''name'' (VStr ''ann'') (newBuilder exampleUser))
   \<and> [CompileSql, CompileMongo, CompileSql] \<noteq> []
   \<and> \<not> hasDeletedAtClause (whereEq ''name'' (VStr ''ann'') (newBuilder exampleUser))
   \<and> map column (whereClauses (runTerminals [CompileSql, CompileMongo, CompileSql]
        (whereEq ''name'' (VStr ''ann'') (newBuilder exampleUser)))) = [''name'', ''deleted_at'']"
proof -
  let ?b = "whereEq ''name'' (VStr ''ann'') (newBuilder exampleUser)"
  have h: "softDeletes (bmodel ?b)" "\<not> includeTrashed ?b" "\<not> onlyTrashedFlag ?b"
    "\<not> appliedSoftDeleteFilter ?b" "[CompileSql, CompileMongo, CompileSql] \<noteq> []"
    and no: "\<not> hasDeletedAtClause ?b"
    by (simp_all add: whereEq_def where3_def pushWhere_def newBuilder_def exampleUser_def
        hasDeletedAtClause_def)
  have cols: "map column (whereClauses ?b) = [''name'']"
    by (simp add: whereEq_def where3_def pushWhere_def newBuilder_def)
  show ?thesis
    using soft_delete_injected_at_most_once[OF h] h no cols by simp
qed

text \<open>
  A builder that already carries a clause on \<open>deleted_at\<close>
  (\<open>User.where('deleted_at', '>', 5)\<close>) is in neither trashed mode, yet a terminal
  operation appends nothing to it.
\<close>

theorem soft_delete_exactly_once_counterexample:
  "softDeletes (bmodel (where3 ''deleted_at'' (VStr ''>'') (VNum 5) (newBuilder exampleUser)))
   \<and> \<not> includeTrashed (where3 ''deleted_at'' (VStr ''>'') (VNum 5) (newBuilder exampleUser))
   \<and> \<not> onlyTrashedFlag (where3 ''deleted_at'' (VStr ''>'') (VNum 5) (newBuilder exampleUser))
   \<and> whereClauses (runTerminals [CompileSql]
        (where3 ''deleted_at'' (VStr ''>'') (VNum 5) (newBuilder exampleUser)))
      = [Cond ''deleted_at'' ''>'' (VNum 5) (Some And)]"
  by (simp add: where3_def pushWhere_def newBuilder_def exampleUser_def buildWhereClause_def
      injectSoftDelete_def Let_def split: prod.splits)

subsection \<open>Dirty tracking\<close>










subsection \<open>Many-to-many mutations without a parent key\<close>

text \<open>
  C10. If the parent's primary-key attribute, as \<open>getAttribute\<close> reads it, is \<open>undefined\<close>
  or \<open>null\<close>, then on either backend and for every driver no operation reaches the
  store (the store state is returned as it was) and the result is neutral: \<open>attach\<close>
  returns, \<open>detach\<close> returns 0, \<open>sync\<close> returns \<open>{attached: [], detached: [], updated: []}\<close>
  and \<open>toggle\<close> returns \<open>{attached: [], detached: []}\<close>.
\<close>

theorem mutations_need_parent_key:
  assumes "isNullish (parentId rel)"
  shows "attach exec isMongo rel attachments extra s = (Done (), s)
    \<and> detach exec isMongo rel relatedIds s = (Done (VNum 0), s)
    \<and> sync exec isMongo rel targets detaching s = (Done \<lparr>attached = [], detached = [], updated = []\<rparr>, s)
    \<and> toggle exec isMongo rel ids s = (Done ([], []), s)"
  using assms by (simp add: attach_def detach_def sync_def toggle_def)

text \<open>A user that was never saved has no \<open>id\<close>; the recording driver's log stays empty.\<close>

theorem mutations_need_parent_key_witness:
  "isNullish (parentId (exampleRelation (newModel exampleUser [])))
   \<and> attach (logDriver (Result [])) False (exampleRelation (newModel exampleUser [])) [ById (VNum 7)] [] []
       = (Done (), [])
   \<and> detach (logDriver (Result [])) False (exampleRelation (newModel exampleUser [])) (Some [VNum 7]) []
       = (Done (VNum 0), [])
   \<and> sync (logDriver (Result [])) True (exampleRelation (newModel exampleUser [])) [ById (VNum 7)] True []
       = (Done \<lparr>attached = [], detached = [], updated = []\<rparr>, [])
   \<and> toggle (logDriver (Result [])) True (exampleRelation (newModel exampleUser [])) [VNum 7] []
       = (Done ([], []), [])"
proof -
  have h: "isNullish (parentId (exampleRelation (newModel exampleUser [])))"
    by (simp add: parentId_def exampleRelation_def newModel_def fill_def getAttribute_def
        exampleUser_def hasProp_def getProp_def truthy_def isNullish_def Let_def)
  show ?thesis
    using h mutations_need_parent_key [OF h, of "logDriver (Result [])"] by simp
qed

text \<open>With a parent key the same \<open>attach\<close> does write to the store.\<close>

lemma attach_with_parent_key:
  "attach (logDriver (Result [])) False
     (exampleRelation (hydrate [(''id'', VNum 1)] (newModel exampleUser []))) [ById (VNum 7)] [] []
   = (Done (), [DbQuery ''INSERT IGNORE INTO person_user (user_id,person_id) VALUES (?,?)''
                  [VNum 1, VNum 7]])"
  by (simp add: attach_def attachOne_def call_def parentId_def exampleRelation_def newModel_def
      fill_def hydrate_def setAttribute_def castAttribute_def getAttribute_def exampleUser_def
      hasProp_def getProp_def delProp_def isNullish_def logDriver_def Let_def)

subsection \<open>Has-conditions on a relation without descriptor\<close>

text \<open>
  The SQL compiler skips a has-condition whose relation has no descriptor: the compiled
  fragment and its parameters are those of the builder without these conditions.
\<close>

lemma hasClauses_skip_unknown:
  "hasClauses cls m base conds
     = hasClauses cls m base (filter (\<lambda>c. getRelationship m (relation c) \<noteq> None) conds)"
proof (induction conds)
  case Nil
  then show ?case by simp
next
  case (Cons c cs)
  show ?case
  proof (cases "getRelationship m (relation c)")
    case None
    then have "hasClause cls m base c = None" by (cases c) simp
    with Cons None show ?thesis by (simp split: prod.splits)
  next
    case (Some r)
    with Cons show ?thesis by (simp split: prod.splits option.splits)
  qed
qed

lemma buildHasConditionsSQL_skip_unknown:
  "buildHasConditionsSQL cls b base
     = buildHasConditionsSQL cls
         (b\<lparr>hasConditions := filter (\<lambda>c. getRelationship (bmodel b) (relation c) \<noteq> None) (hasConditions b)\<rparr>)
         base"
proof -
  have sqlOf: "hasSqlOf cls m base conds
      = hasSqlOf cls m base (filter (\<lambda>c. getRelationship m (relation c) \<noteq> None) conds)" for m conds
    using hasClauses_skip_unknown[of cls m base conds] by simp
  have empty: "hasSqlOf cls m base [] = ([], [])" for m by simp
  show ?thesis
    unfolding buildHasConditionsSQL_def
    using sqlOf[of "bmodel b" "hasConditions b"] empty[of "bmodel b"]
    by (auto simp del: hasSqlOf.simps)
qed

text \<open>
  The document backend does not: one such condition makes \<open>allOk\<close> false for every
  candidate document, so the post-fetch filter keeps nothing.
\<close>

lemma allOk_unknown:
  "\<exists>c \<in> set conds. getRelationship m (relation c) = None \<Longrightarrow> \<not> allOk m countRelated doc conds"
  by (induction conds) (auto simp: Let_def split: option.splits)

lemma applyHasConditionsMongo_unknown:
  "\<exists>c \<in> set (hasConditions b). getRelationship (bmodel b) (relation c) = None \<Longrightarrow>
   applyHasConditionsMongo b countRelated docs = []"
  using allOk_unknown[of "hasConditions b" "bmodel b" countRelated]
  by (auto simp: applyHasConditionsMongo_def filter_empty_conv)

text \<open>
  C3 at a concrete input: \<open>Author.whereHas('nope')\<close>, where \<open>Author\<close> declares only the
  relation \<open>books\<close>, over one fetched candidate \<open>{id: 1}\<close>. On the SQL backend the
  condition compiles to nothing, as for the builder without it. On the document backend
  the post-fetch filter drops the candidate, while the builder without the condition
  keeps it.
\<close>

theorem unknown_relation_has_condition:
  "buildHasConditionsSQL exampleClasses (whereHas ''nope'' None ''>='' 1 (newBuilder exampleAuthor)) ''authors''
     = buildHasConditionsSQL exampleClasses (newBuilder exampleAuthor) ''authors''
   \<and> applyHasConditionsMongo (whereHas ''nope'' None ''>='' 1 (newBuilder exampleAuthor)) (\<lambda>relMeta cond doc. 1)
        [[(''id'', VNum 1)]] = []
   \<and> applyHasConditionsMongo (newBuilder exampleAuthor) (\<lambda>relMeta cond doc. 1)
        [[(''id'', VNum 1)]] = [[(''id'', VNum 1)]]"
  by (simp add: buildHasConditionsSQL_def applyHasConditionsMongo_def whereHas_def newBuilder_def
      exampleAuthor_def getRelationship_def)

subsection \<open>Relationship loaders leave attributes alone\<close>























lemma setLoadedRelation_keeps_attributes:
  "attributes (setLoadedRelation name v e) = attributes e \<and> original (setLoadedRelation name v e) = original e"
  by (simp add: setLoadedRelation_def)

subsection \<open>Cycle safety of the serializer\<close>

text \<open>
  The helpers return a result whenever the call on a related entity does, and the
  visited-set only grows. \<open>V\<close> is a set of addresses already visited.
\<close>

lemma serializeValue_total:
  assumes child: "\<And>ropts x vis. x < length h \<Longrightarrow> V \<subseteq> set vis
            \<Longrightarrow> \<exists>j vis'. child ropts x vis = Some (j, vis') \<and> set vis \<subseteq> set vis'"
    and "V \<subseteq> set vis"
  shows "\<exists>j vis'. serializeValue child h ropts v vis = Some (j, vis') \<and> set vis \<subseteq> set vis'"
proof (cases v)
  case (VRef x)
  then show ?thesis using child[of x vis ropts] assms(2) by auto
qed auto

lemma serializeArray_total:
  assumes child: "\<And>ropts x vis. x < length h \<Longrightarrow> V \<subseteq> set vis
            \<Longrightarrow> \<exists>j vis'. child ropts x vis = Some (j, vis') \<and> set vis \<subseteq> set vis'"
    and "V \<subseteq> set vis"
  shows "\<exists>js vis'. serializeArray child h ropts vs vis = Some (js, vis') \<and> set vis \<subseteq> set vis'"
  using assms(2)
proof (induction vs arbitrary: vis)
  case Nil
  then show ?case by simp
next
  case (Cons v vs)
  from serializeValue_total[of h V child vis ropts v, OF child Cons.prems]
  obtain j vis1 where 1: "serializeValue child h ropts v vis = Some (j, vis1)" "set vis \<subseteq> set vis1"
    by blast
  with Cons.prems have "V \<subseteq> set vis1" by blast
  from Cons.IH[OF this] obtain js vis2 where
    2: "serializeArray child h ropts vs vis1 = Some (js, vis2)" "set vis1 \<subseteq> set vis2" by blast
  from 1 2 show ?case by auto
qed

lemma serializeLoaded_total:
  assumes child: "\<And>ropts x vis. x < length h \<Longrightarrow> V \<subseteq> set vis
            \<Longrightarrow> \<exists>j vis'. child ropts x vis = Some (j, vis') \<and> set vis \<subseteq> set vis'"
    and "V \<subseteq> set vis"
  shows "\<exists>ob' vis'. serializeLoaded child h e opts loaded ob vis = Some (ob', vis') \<and> set vis \<subseteq> set vis'"
  using assms(2)
proof (induction loaded arbitrary: ob vis)
  case Nil
  then show ?case by simp
next
  case (Cons p rest)
  obtain rel v where p: "p = (rel, v)" by (cases p)
  show ?case
  proof (cases "skipsRelation opts rel \<or> (\<not> isArray v \<and> isNullish v)")
    case True
    then show ?thesis using Cons.IH[OF Cons.prems, of ob] p by auto
  next
    case False
    show ?thesis
    proof (cases "isArray v")
      case True
      from serializeArray_total[of h V child vis "relationOptions e rel opts" "elems v", OF child Cons.prems]
      obtain js vis1 where
        1: "serializeArray child h (relationOptions e rel opts) (elems v) vis = Some (js, vis1)"
           "set vis \<subseteq> set vis1" by blast
      with Cons.prems have "V \<subseteq> set vis1" by blast
      from Cons.IH[OF this, of "setProp rel (JArr js) ob"] 1 True False p show ?thesis by auto
    next
      case notArr: False
      from serializeValue_total[of h V child vis "relationOptions e rel opts" v, OF child Cons.prems]
      obtain j vis1 where
        1: "serializeValue child h (relationOptions e rel opts) v vis = Some (j, vis1)"
           "set vis \<subseteq> set vis1" by blast
      with Cons.prems have "V \<subseteq> set vis1" by blast
      from Cons.IH[OF this, of "setProp rel j ob"] 1 notArr False p show ?thesis by auto
    qed
  qed
qed

text \<open>The number of entities not yet visited shrinks with every entity entered.\<close>

lemma unvisited_mono:
  "set vis \<subseteq> set vis' \<Longrightarrow> card ({..<length (h :: heap)} - set vis') \<le> card ({..<length h} - set vis)"
  by (intro card_mono) auto

lemma unvisited_less:
  "r < length (h :: heap) \<Longrightarrow> r \<notin> set vis
   \<Longrightarrow> card ({..<length h} - set (r # vis)) < card ({..<length h} - set vis)"
  by (intro psubset_card_mono) auto

lemma toJSON_total:
  "r < length h \<Longrightarrow> card ({..<length h} - set visited) < n \<Longrightarrow>
   \<exists>j visited'. toJSON n h opts r visited = Some (j, visited') \<and> set visited \<subseteq> set visited'"
proof (induction n arbitrary: opts r visited)
  case 0
  then show ?case by simp
next
  case (Suc n)
  show ?case
  proof (cases "r \<in> set visited \<or> currentDepth opts \<ge> maxDepth opts \<or> onlyAppended opts
                \<or> \<not> (withRelations opts \<and> relationshipsLoaded (h ! r) \<noteq> [])")
    case True
    then show ?thesis using Suc.prems(1) by (auto simp: toJSONBody_def Let_def split: prod.splits)
  next
    case False
    then have nv: "r \<notin> set visited" by simp
    have good: "\<exists>j vis'. toJSON n h ropts x vis = Some (j, vis') \<and> set vis \<subseteq> set vis'"
      if a: "x < length h" "set (r # visited) \<subseteq> set vis" for ropts x vis
    proof -
      from a have "card ({..<length h} - set vis) \<le> card ({..<length h} - set (r # visited))"
        by (intro unvisited_mono)
      also have "\<dots> < card ({..<length h} - set visited)" using unvisited_less[OF Suc.prems(1) nv] .
      finally have "card ({..<length h} - set vis) < n" using Suc.prems(2) by simp
      with a Suc.IH show ?thesis by blast
    qed
    obtain ct dr ob0 where pr: "prepare (h ! r) opts = (ct, dr, ob0)"
      by (cases "prepare (h ! r) opts") auto
    from serializeLoaded_total[of h "set (r # visited)" "toJSON n h" "r # visited" "h ! r"
        "loadedOptions opts ct dr" "relationshipsLoaded (h ! r)" ob0, OF good subset_refl]
    obtain ob' vis' where
      "serializeLoaded (toJSON n h) h (h ! r) (loadedOptions opts ct dr) (relationshipsLoaded (h ! r))
         ob0 (r # visited) = Some (ob', vis')"
      "set (r # visited) \<subseteq> set vis'" by blast
    then show ?thesis using False Suc.prems(1) pr by (auto simp: toJSONBody_def Let_def)
  qed
qed

text \<open>The two markers, at any entity of the heap.\<close>

lemma toJSON_markers:
  assumes "r < length h"
  shows "r \<in> set visited \<Longrightarrow> toJSON (Suc n) h opts r visited = Some (circularMarker, visited)"
    and "r \<notin> set visited \<Longrightarrow> maxDepth opts \<le> currentDepth opts
         \<Longrightarrow> toJSON (Suc n) h opts r visited = Some (maxDepthMarker, r # visited)"
  using assms by (simp_all add: toJSONBody_def)

text \<open>
  C8. Serializing an entity of any heap of entities returns, whatever the loaded
  relations reference (cycles included): nesting \<open>toJSON\<close> calls more deeply than the
  number of entities not yet visited is never needed. The visited-set only grows. An
  entity already in the visited-set is rendered as the marker \<open>[Circular]\<close> with no
  further call and the visited-set unchanged; an entity not yet visited that is reached
  at or beyond the maximum depth is rendered as the marker \<open>[Max Depth Reached]\<close>.
\<close>

theorem toJSON_cycle_safe:
  assumes "r < length h" and "card ({..<length h} - set visited) < n"
  shows "\<exists>j visited'. toJSON n h opts r visited = Some (j, visited')
           \<and> set visited \<subseteq> set visited'
           \<and> (r \<in> set visited \<longrightarrow> j = circularMarker \<and> visited' = visited)
           \<and> (r \<notin> set visited \<and> maxDepth opts \<le> currentDepth opts \<longrightarrow> j = maxDepthMarker)"
proof -
  from assms(2) obtain k where n: "n = Suc k" by (cases n) auto
  from toJSON_total[OF assms, of opts] obtain j visited' where
    1: "toJSON n h opts r visited = Some (j, visited')" "set visited \<subseteq> set visited'" by blast
  from 1(1) toJSON_markers[OF assms(1), where visited = visited and n = k and opts = opts] n
  have "(r \<in> set visited \<longrightarrow> j = circularMarker \<and> visited' = visited)
      \<and> (r \<notin> set visited \<and> maxDepth opts \<le> currentDepth opts \<longrightarrow> j = maxDepthMarker)"
    by auto
  with 1 show ?thesis by blast
qed

text \<open>
  Two entities that reference each other, both relations loaded: serializing \<open>A\<close>
  returns, with \<open>B\<close> nested under \<open>related\<close> and the second occurrence of \<open>A\<close>, under
  \<open>B\<close>'s \<open>related\<close>, rendered as \<open>[Circular]\<close>.
\<close>

lemma serialize_cyclePair:
  "toJSON 3 cyclePair defaultOptions 0 [] =
     Some (JObj [(''id'', JRaw (VNum 1)),
                 (''related'', JObj [(''id'', JRaw (VNum 2)), (''related'', JRaw (VStr ''[Circular]''))])],
           [1, 0])"
  by (simp add: toJSONBody_def cyclePair_def node_def exampleNode_def relatedRelation_def
      defaultOptions_def prepare_def ownFields_def attributesToArray_def getAllRelationships_def
      loadedOptions_def skipsRelation_def relationOptions_def getRelationship_def finish_def
      placeholders_def isSet_def allowed_def emptyShape_def circularMarker_def isNullish_def
      numeral_3_eq_3 Let_def)

theorem toJSON_cycle_safe_witness:
  "0 < length cyclePair \<and> card ({..<length cyclePair} - set []) < 3
   \<and> toJSON 3 cyclePair defaultOptions 0 [] =
       Some (JObj [(''id'', JRaw (VNum 1)),
                   (''related'', JObj [(''id'', JRaw (VNum 2)), (''related'', JRaw (VStr ''[Circular]''))])],
             [1, 0])
   \<and> 0 \<in> set [0 :: ref] \<and> toJSON 3 cyclePair defaultOptions 0 [0] = Some (circularMarker, [0])
   \<and> maxDepth (defaultOptions\<lparr>currentDepth := 10\<rparr>) \<le> currentDepth (defaultOptions\<lparr>currentDepth := 10\<rparr>)
   \<and> (\<exists>visited'. toJSON 3 cyclePair (defaultOptions\<lparr>currentDepth := 10\<rparr>) 0 []
                       = Some (maxDepthMarker, visited'))"
proof -
  have h: "0 < length cyclePair" "card ({..<length cyclePair} - set []) < 3"
    "card ({..<length cyclePair} - set [0]) < 3"
    by (simp_all add: cyclePair_def)
  have d: "maxDepth (defaultOptions\<lparr>currentDepth := 10\<rparr>) \<le> currentDepth (defaultOptions\<lparr>currentDepth := 10\<rparr>)"
    by (simp add: defaultOptions_def)
  from toJSON_cycle_safe[OF h(1,2), of defaultOptions]
  have 1: "\<exists>j visited'. toJSON 3 cyclePair defaultOptions 0 [] = Some (j, visited')" by auto
  from toJSON_cycle_safe[OF h(1,3), of defaultOptions]
  have 2: "toJSON 3 cyclePair defaultOptions 0 [0] = Some (circularMarker, [0])" by auto
  from toJSON_cycle_safe[OF h(1,2), of "defaultOptions\<lparr>currentDepth := 10\<rparr>"] d
  have 3: "\<exists>visited'. toJSON 3 cyclePair (defaultOptions\<lparr>currentDepth := 10\<rparr>) 0 []
                       = Some (maxDepthMarker, visited')" by auto
  from 1 2 3 h d serialize_cyclePair show ?thesis by simp
qed

subsection \<open>Placeholders for declared relations\<close>

lemma map_of_setProp: "map_of (setProp k v ob) k' = (if k' = k then Some v else map_of ob k')"
  by (induction ob) auto

lemma isSet_setProp_other: "k \<noteq> rel \<Longrightarrow> isSet (setProp k v ob) rel = isSet ob rel"
  by (simp add: isSet_def map_of_setProp)

text \<open>The placeholder loop leaves a key that has a value alone.\<close>

lemma placeholders_keep:
  "isSet ob rel \<Longrightarrow>
   map_of (foldl (\<lambda>ob (relName, cfg).
              if isSet ob relName then ob
              else if \<not> allowed ct dr relName then ob
              else if ex \<noteq> [] \<and> relName \<in> set ex then ob
              else setProp relName (emptyShape cfg) ob) ob rs) rel = map_of ob rel"
proof (induction rs arbitrary: ob)
  case Nil
  then show ?case by simp
next
  case (Cons p rs)
  obtain k c where p: "p = (k, c)" by (cases p)
  show ?case
  proof (cases "k = rel")
    case True
    then show ?thesis using Cons p by simp
  next
    case False
    then show ?thesis using Cons p by (simp add: isSet_setProp_other map_of_setProp)
  qed
qed

lemma emptyShape_defined: "emptyShape cfg \<noteq> JRaw VUndefined"
  by (simp add: emptyShape_def)

lemma placeholders_fill:
  assumes "map_of rs rel = Some cfg" and "allowed ct dr rel" and "rel \<notin> set ex"
  shows "map_of (foldl (\<lambda>ob (relName, cfg).
              if isSet ob relName then ob
              else if \<not> allowed ct dr relName then ob
              else if ex \<noteq> [] \<and> relName \<in> set ex then ob
              else setProp relName (emptyShape cfg) ob) ob rs) rel
         = (if isSet ob rel then map_of ob rel else Some (emptyShape cfg))"
  using assms(1)
proof (induction rs arbitrary: ob)
  case Nil
  then show ?case by simp
next
  case (Cons p rs)
  obtain k c where p: "p = (k, c)" by (cases p)
  show ?case
  proof (cases "k = rel")
    case True
    with Cons.prems p have c: "c = cfg" by simp
    show ?thesis
    proof (cases "isSet ob rel")
      case True
      then show ?thesis using placeholders_keep[of ob rel ct dr ex "p # rs"] by simp
    next
      case False
      have "isSet (setProp rel (emptyShape cfg) ob) rel"
        by (simp add: isSet_def map_of_setProp emptyShape_defined)
      from placeholders_keep[OF this, of ct dr ex rs] False \<open>k = rel\<close> c p assms(2,3)
      show ?thesis by (simp add: map_of_setProp)
    qed
  next
    case False
    with Cons.prems p have "map_of rs rel = Some cfg" by simp
    from Cons.IH[OF this] False p show ?thesis by (simp add: isSet_setProp_other map_of_setProp isSet_def)
  qed
qed

lemma placeholders_value:
  assumes "map_of (getAllRelationships (emodel e)) rel = Some cfg"
    and "allowed ct dr rel" and "rel \<notin> set (excluded opts)"
  shows "map_of (placeholders e opts ct dr ob) rel
         = (if isSet ob rel then map_of ob rel else Some (emptyShape cfg))"
  unfolding placeholders_def using placeholders_fill[OF assms] .

text \<open>The own and appended fields only use attribute names and appended names.\<close>

lemma fold_attributes_other:
  "rel \<notin> fst ` set xs \<Longrightarrow>
   map_of (foldl (\<lambda>acc (k, v). setProp k (JRaw v) acc) ob xs) rel = map_of ob rel"
  by (induction xs arbitrary: ob) (auto simp: map_of_setProp)

lemma fold_appends_other:
  "rel \<notin> set ks \<Longrightarrow>
   map_of (foldl (\<lambda>acc key.
                 if key \<in> set ex then acc
                 else if includeAttr \<noteq> [] \<and> key \<notin> set includeAttr \<and> key \<notin> set directRelations then acc
                 else setProp key (JRaw (readAttribute e key)) acc) ob ks) rel
   = map_of ob rel"
  by (induction ks arbitrary: ob) (auto simp: map_of_setProp)

lemma ownFields_other:
  assumes "rel \<notin> fst ` set (attributes e)" and "rel \<notin> set (appends (emodel e))"
  shows "map_of (ownFields e opts includeAttr directRelations) rel = None"
proof -
  have "rel \<notin> fst ` set (filter (\<lambda>(k, v). (includeAttr = [] \<or> k \<in> set includeAttr) \<and> k \<notin> set (excluded opts))
                   (attributesToArray e))"
    using assms(1) by (auto simp: attributesToArray_def)
  from fold_attributes_other[OF this, of "[]"] have 1:
    "map_of (foldl (\<lambda>acc (k, v). setProp k (JRaw v) acc) []
       (filter (\<lambda>(k, v). (includeAttr = [] \<or> k \<in> set includeAttr) \<and> k \<notin> set (excluded opts))
          (attributesToArray e))) rel = None" by simp
  show ?thesis
    unfolding ownFields_def Let_def using 1 by (simp add: fold_appends_other[OF assms(2)])
qed

text \<open>\<open>serializeRelationships\<close> only assigns keys of loaded relations that have a value.\<close>

lemma isArray_not_nullish: "isArray v \<Longrightarrow> \<not> isNullish v"
  by (cases v) (auto simp: isNullish_def)

lemma serializeLoaded_other:
  assumes "serializeLoaded child h e opts loaded ob vis = Some (ob', vis')"
    and "\<And>v. (rel, v) \<in> set loaded \<Longrightarrow> isNullish v"
  shows "map_of ob' rel = map_of ob rel"
  using assms
proof (induction loaded arbitrary: ob vis)
  case Nil
  then show ?case by simp
next
  case (Cons p rest)
  obtain k v where p: "p = (k, v)" by (cases p)
  have rest: "\<And>v. (rel, v) \<in> set rest \<Longrightarrow> isNullish v" using Cons.prems(2) by simp
  show ?case
  proof (cases "skipsRelation opts k \<or> (\<not> isArray v \<and> isNullish v)")
    case True
    then show ?thesis using Cons.IH[OF _ rest, of ob vis] Cons.prems(1) p by (auto split: if_splits)
  next
    case False
    then have "\<not> isNullish v" using isArray_not_nullish by blast
    with Cons.prems(2) p have ne: "k \<noteq> rel" by auto
    show ?thesis
    proof (cases "isArray v")
      case True
      with False Cons.prems(1) p obtain js vis1 where
        "serializeLoaded child h e opts rest (setProp k (JArr js) ob) vis1 = Some (ob', vis')"
        by (auto split: option.splits)
      from Cons.IH[OF this rest] ne show ?thesis by (simp add: map_of_setProp)
    next
      case notArr: False
      with False Cons.prems(1) p obtain j vis1 where
        "serializeLoaded child h e opts rest (setProp k j ob) vis1 = Some (ob', vis')"
        by (auto split: option.splits)
      from Cons.IH[OF this rest] ne show ?thesis by (simp add: map_of_setProp)
    qed
  qed
qed

lemma serializeLoaded_empty_list:
  assumes "serializeLoaded child h e opts loaded ob vis = Some (ob', vis')"
    and "(rel, VArr []) \<in> set loaded" and "distinct (map fst loaded)"
    and "\<not> skipsRelation opts rel"
  shows "map_of ob' rel = Some (JArr [])"
  using assms(1,2,3)
proof (induction loaded arbitrary: ob vis)
  case Nil
  then show ?case by simp
next
  case (Cons p rest)
  obtain k v where p: "p = (k, v)" by (cases p)
  show ?case
  proof (cases "k = rel")
    case True
    with Cons.prems(2,3) p have v: "v = VArr []" and norel: "\<And>w. (rel, w) \<in> set rest \<Longrightarrow> isNullish w"
      by (auto simp: image_iff)
    with Cons.prems(1) p True assms(4)
    have "serializeLoaded child h e opts rest (setProp rel (JArr []) ob) vis = Some (ob', vis')"
      by simp
    from serializeLoaded_other[OF this norel] show ?thesis by (simp add: map_of_setProp)
  next
    case False
    with Cons.prems(2,3) p have in_rest: "(rel, VArr []) \<in> set rest" and d: "distinct (map fst rest)"
      by auto
    from Cons.prems(1) p obtain ob1 vis1 where
      "serializeLoaded child h e opts rest ob1 vis1 = Some (ob', vis')"
      by (auto split: if_splits option.splits)
    from Cons.IH[OF this in_rest d] show ?thesis .
  qed
qed

lemma skipsRelation_loadedOptions:
  "skipsRelation (loadedOptions opts ct dr) rel = (rel \<in> set (excluded opts) \<or> \<not> allowed ct dr rel)"
  by (auto simp: skipsRelation_def loadedOptions_def allowed_def)

lemma addMetadata_other: "rel \<noteq> ''$metadata'' \<Longrightarrow> map_of (addMetadata e ob) rel = map_of ob rel"
  by (simp add: addMetadata_def map_of_setProp)

text \<open>What \<open>toJSON\<close> returns when it returns an object in the ordinary mode.\<close>

lemma toJSON_object:
  assumes "toJSON n h opts r visited = Some (JObj ob, visited')" and "\<not> onlyAppended opts"
  shows "\<exists>k obX. n = Suc k
           \<and> JObj ob = finish (h ! r) opts (fst (prepare (h ! r) opts)) (fst (snd (prepare (h ! r) opts))) obX
           \<and> (\<not> (withRelations opts \<and> relationshipsLoaded (h ! r) \<noteq> [])
                \<and> obX = snd (snd (prepare (h ! r) opts))
              \<or> (\<exists>vis. serializeLoaded (toJSON k h) h (h ! r)
                     (loadedOptions opts (fst (prepare (h ! r) opts)) (fst (snd (prepare (h ! r) opts))))
                     (relationshipsLoaded (h ! r)) (snd (snd (prepare (h ! r) opts))) (r # visited)
                   = Some (obX, vis)))"
proof (cases n)
  case 0
  with assms show ?thesis by simp
next
  case (Suc k)
  obtain ct dr ob0 where pr: "prepare (h ! r) opts = (ct, dr, ob0)"
    by (cases "prepare (h ! r) opts") auto
  from assms Suc have g: "\<not> length h \<le> r" "r \<notin> set visited" "\<not> maxDepth opts \<le> currentDepth opts"
    by (auto simp: toJSONBody_def circularMarker_def maxDepthMarker_def split: if_splits)
  show ?thesis
  proof (cases "withRelations opts \<and> relationshipsLoaded (h ! r) \<noteq> []")
    case True
    with assms Suc g pr obtain obX where
      "serializeLoaded (toJSON k h) h (h ! r) (loadedOptions opts ct dr) (relationshipsLoaded (h ! r)) ob0
         (r # visited) = Some (obX, visited')"
      "JObj ob = finish (h ! r) opts ct dr obX"
      by (auto simp: toJSONBody_def Let_def)
    then show ?thesis using Suc pr by auto
  next
    case False
    with assms Suc g pr have "JObj ob = finish (h ! r) opts ct dr ob0"
      by (auto simp: toJSONBody_def Let_def)
    then show ?thesis using Suc pr False by auto
  qed
qed

lemma prepare_ownFields:
  "\<exists>includeAttr. snd (snd (prepare e opts)) = ownFields e opts includeAttr (fst (snd (prepare e opts)))"
  by (auto simp: prepare_def Let_def split: prod.splits)

text \<open>
  C7, as the code has it. Let \<open>toJSON\<close> return an object for an entity, with relations
  enabled and not in the appended-only mode, and let \<open>rel\<close> be a relation the entity's
  type declares that is not excluded and passes the inclusion filter (no relation is
  named by \<open>include\<close> or the relation tree, or \<open>rel\<close> is). Then \<open>rel\<close> is a key of the
  object. If the relation is not loaded, or loaded as \<open>null\<close>, and no attribute or
  appended field has its name, its value is the empty shape: \<open>null\<close> for the to-one kinds
  and \<open>[]\<close> for the to-many kinds. If it is loaded as an empty list, its value is \<open>[]\<close>.
\<close>

theorem declared_relation_shape:
  assumes "toJSON n h opts r visited = Some (JObj ob, visited')"
    and "withRelations opts" and "\<not> onlyAppended opts"
    and "map_of (getAllRelationships (emodel (h ! r))) rel = Some cfg"
    and "rel \<notin> set (excluded opts)"
    and "allowed (fst (prepare (h ! r) opts)) (fst (snd (prepare (h ! r) opts))) rel"
    and "includeMetadata opts \<longrightarrow> rel \<noteq> ''$metadata''"
  shows "rel \<in> fst ` set ob
     \<and> ((\<forall>v. (rel, v) \<in> set (relationshipsLoaded (h ! r)) \<longrightarrow> isNullish v)
          \<and> rel \<notin> fst ` set (attributes (h ! r)) \<and> rel \<notin> set (appends (emodel (h ! r)))
        \<longrightarrow> map_of ob rel = Some (if isToOne (rtype cfg) then JRaw VNull else JArr []))
     \<and> ((rel, VArr []) \<in> set (relationshipsLoaded (h ! r))
          \<and> distinct (map fst (relationshipsLoaded (h ! r)))
        \<longrightarrow> map_of ob rel = Some (JArr []))"
proof -
  let ?e = "h ! r"
  let ?ct = "fst (prepare ?e opts)"
  let ?dr = "fst (snd (prepare ?e opts))"
  let ?ob0 = "snd (snd (prepare ?e opts))"
  from toJSON_object[OF assms(1,3)] obtain k obX where
    fin: "JObj ob = finish ?e opts ?ct ?dr obX"
    and src: "\<not> (withRelations opts \<and> relationshipsLoaded ?e \<noteq> []) \<and> obX = ?ob0
              \<or> (\<exists>vis. serializeLoaded (toJSON k h) h ?e (loadedOptions opts ?ct ?dr)
                          (relationshipsLoaded ?e) ?ob0 (r # visited) = Some (obX, vis))"
    by blast
  let ?ob1 = "placeholders ?e opts ?ct ?dr obX"
  from fin assms(2) have ob: "ob = (if includeMetadata opts then addMetadata ?e ?ob1 else ?ob1)"
    by (simp add: finish_def Let_def split: if_splits)
  with assms(7) have same: "map_of ob rel = map_of ?ob1 rel"
    by (simp add: addMetadata_other)
  have pv: "map_of ?ob1 rel = (if isSet obX rel then map_of obX rel else Some (emptyShape cfg))"
    using placeholders_value[OF assms(4,6,5)] .
  have present: "rel \<in> fst ` set ob"
  proof -
    from pv have "map_of ?ob1 rel \<noteq> None" by (auto simp: isSet_def split: option.splits)
    with same have "map_of ob rel \<noteq> None" by simp
    then show ?thesis by (simp add: map_of_eq_None_iff)
  qed
  have unloaded: "map_of ob rel = Some (if isToOne (rtype cfg) then JRaw VNull else JArr [])"
    if u: "\<forall>v. (rel, v) \<in> set (relationshipsLoaded ?e) \<longrightarrow> isNullish v"
      and a: "rel \<notin> fst ` set (attributes ?e)" "rel \<notin> set (appends (emodel ?e))"
  proof -
    from prepare_ownFields[of ?e opts] obtain ia where "?ob0 = ownFields ?e opts ia ?dr" by blast
    with ownFields_other[OF a] have none0: "map_of ?ob0 rel = None" by simp
    have "map_of obX rel = None"
    proof (rule disjE[OF src])
      assume "\<not> (withRelations opts \<and> relationshipsLoaded ?e \<noteq> []) \<and> obX = ?ob0"
      with none0 show ?thesis by simp
    next
      assume "\<exists>vis. serializeLoaded (toJSON k h) h ?e (loadedOptions opts ?ct ?dr)
                          (relationshipsLoaded ?e) ?ob0 (r # visited) = Some (obX, vis)"
      then obtain vis where "serializeLoaded (toJSON k h) h ?e (loadedOptions opts ?ct ?dr)
                          (relationshipsLoaded ?e) ?ob0 (r # visited) = Some (obX, vis)" by blast
      from serializeLoaded_other[OF this] u none0 show ?thesis by simp
    qed
    then have "\<not> isSet obX rel" by (simp add: isSet_def)
    with pv same show ?thesis by (simp add: emptyShape_def)
  qed
  have empty: "map_of ob rel = Some (JArr [])"
    if l: "(rel, VArr []) \<in> set (relationshipsLoaded ?e)"
      and d: "distinct (map fst (relationshipsLoaded ?e))"
  proof -
    from l have "relationshipsLoaded ?e \<noteq> []" by auto
    with src assms(2) obtain vis where
      run: "serializeLoaded (toJSON k h) h ?e (loadedOptions opts ?ct ?dr)
              (relationshipsLoaded ?e) ?ob0 (r # visited) = Some (obX, vis)" by blast
    have "\<not> skipsRelation (loadedOptions opts ?ct ?dr) rel"
      using assms(5,6) by (simp add: skipsRelation_loadedOptions)
    from serializeLoaded_empty_list[OF run l d this] have "map_of obX rel = Some (JArr [])" .
    with pv same show ?thesis by (simp add: isSet_def)
  qed
  from present unloaded empty show ?thesis by blast
qed

text \<open>
  A member with \<open>posts\<close> loaded as an empty list and \<open>profile\<close> not loaded, serialized
  with the default options: \<open>{id: 7, posts: [], profile: null}\<close>.
\<close>

lemma serialize_member:
  "toJSON 1 [member [(''posts'', VArr [])]] defaultOptions 0 []
   = Some (JObj [(''id'', JRaw (VNum 7)), (''posts'', JArr []), (''profile'', JRaw VNull)], [0])"
  by (simp add: toJSONBody_def member_def exampleMember_def postsRelation_def profileRelation_def
      defaultOptions_def prepare_def ownFields_def attributesToArray_def getAllRelationships_def
      loadedOptions_def skipsRelation_def relationOptions_def getRelationship_def finish_def
      placeholders_def isSet_def allowed_def emptyShape_def isToOne_def isNullish_def Let_def)

lemma member_facts:
  "map_of (getAllRelationships (emodel ([member [(''posts'', VArr [])]] ! 0))) ''profile'' = Some profileRelation"
  "map_of (getAllRelationships (emodel ([member [(''posts'', VArr [])]] ! 0))) ''posts'' = Some postsRelation"
  "allowed (fst (prepare ([member [(''posts'', VArr [])]] ! 0) defaultOptions))
     (fst (snd (prepare ([member [(''posts'', VArr [])]] ! 0) defaultOptions))) rel"
  "withRelations defaultOptions" "\<not> onlyAppended defaultOptions" "rel \<notin> set (excluded defaultOptions)"
  "includeMetadata defaultOptions \<longrightarrow> rel \<noteq> ''$metadata''"
  by (simp_all add: member_def exampleMember_def getAllRelationships_def defaultOptions_def
      prepare_def allowed_def Let_def)

theorem declared_relation_shape_witness:
  "toJSON 1 [member [(''posts'', VArr [])]] defaultOptions 0 []
     = Some (JObj [(''id'', JRaw (VNum 7)), (''posts'', JArr []), (''profile'', JRaw VNull)], [0])
   \<and> withRelations defaultOptions \<and> \<not> onlyAppended defaultOptions
   \<and> map_of (getAllRelationships exampleMember) ''profile'' = Some profileRelation
   \<and> map_of (getAllRelationships exampleMember) ''posts'' = Some postsRelation
   \<and> ''profile'' \<notin> fst ` set (relationshipsLoaded (member [(''posts'', VArr [])]))
   \<and> (''posts'', VArr []) \<in> set (relationshipsLoaded (member [(''posts'', VArr [])]))
   \<and> map_of [(''id'', JRaw (VNum 7)), (''posts'', JArr []), (''profile'', JRaw VNull)] ''profile''
       = Some (JRaw VNull)
   \<and> map_of [(''id'', JRaw (VNum 7)), (''posts'', JArr []), (''profile'', JRaw VNull)] ''posts''
       = Some (JArr [])"
proof -
  note shape = declared_relation_shape[OF serialize_member member_facts(4,5) _ member_facts(6,3,7)]
  have loaded: "relationshipsLoaded ([member [(''posts'', VArr [])]] ! 0) = [(''posts'', VArr [])]"
    "attributes ([member [(''posts'', VArr [])]] ! 0) = [(''id'', VNum 7)]"
    "appends (emodel ([member [(''posts'', VArr [])]] ! 0)) = []"
    "rtype profileRelation = HasOne"
    by (simp_all add: member_def exampleMember_def profileRelation_def)
  from shape[OF member_facts(1)] loaded
  have 1: "map_of [(''id'', JRaw (VNum 7)), (''posts'', JArr []), (''profile'', JRaw VNull)] ''profile''
             = Some (JRaw VNull)" by simp
  from shape[OF member_facts(2)] loaded
  have 2: "map_of [(''id'', JRaw (VNum 7)), (''posts'', JArr []), (''profile'', JRaw VNull)] ''posts''
             = Some (JArr [])" by simp
  from member_facts(1,2) have 3:
    "map_of (getAllRelationships exampleMember) ''profile'' = Some profileRelation"
    "map_of (getAllRelationships exampleMember) ''posts'' = Some postsRelation"
    by (simp_all add: member_def)
  from 1 2 3 serialize_member member_facts(4,5) show ?thesis
    by (simp add: member_def)
qed

text \<open>
  The same type serialized with \<open>include: ['posts']\<close> and nothing loaded: \<open>profile\<close> is
  declared and not loaded, and the object has no key \<open>profile\<close>.
\<close>

theorem declared_relation_absent_counterexample:
  "toJSON 1 [member []] (defaultOptions\<lparr>included := [''posts'']\<rparr>) 0 []
     = Some (JObj [(''id'', JRaw (VNum 7)), (''posts'', JArr [])], [0])
   \<and> map_of (getAllRelationships (emodel (member []))) ''profile'' = Some profileRelation
   \<and> relationshipsLoaded (member []) = []
   \<and> ''profile'' \<notin> fst ` set [(''id'', JRaw (VNum 7)), (''posts'', JArr [])]"
  by (simp add: toJSONBody_def member_def exampleMember_def postsRelation_def profileRelation_def
      defaultOptions_def prepare_def ownFields_def attributesToArray_def getAllRelationships_def
      addUnique_def finish_def placeholders_def isSet_def allowed_def emptyShape_def isToOne_def Let_def)

end
